theory Spec2Isabelle
  imports Main "HOL-Library.Sublist"
begin

section \<open>Python values and the builtins used by \<^verbatim>\<open>main.py\<close>\<close>

text \<open>
  Strings are \<^typ>\<open>string\<close>: a character is a code point in the range U+0000..U+00FF.
  A decoded JSON body (\<^verbatim>\<open>response.json()\<close>) is a \<open>pyval\<close>; a dict is an association
  list in insertion order, looked up with \<^const>\<open>map_of\<close>. A float is carried by the text
  that \<^verbatim>\<open>repr\<close> prints for it, which is all the program observes of one.
\<close>

datatype pyval =
    PNone
  | PBool bool
  | PInt int
  | PFloat string
  | PStr string
  | PList "pyval list"
  | PDict "(string \<times> pyval) list"

text \<open>\<^verbatim>\<open>sep.join(xs)\<close>\<close>

fun join :: "string \<Rightarrow> string list \<Rightarrow> string" where
  "join sep [] = []"
| "join sep [x] = x"
| "join sep (x # y # ys) = x @ sep @ join sep (y # ys)"

text \<open>\<^verbatim>\<open>str(n)\<close> for an int: decimal digits, \<^verbatim>\<open>-\<close> in front of a negative number.\<close>

definition digit_char :: "nat \<Rightarrow> char" where
  "digit_char d = char_of (48 + d)"

fun str_nat :: "nat \<Rightarrow> string" where
  "str_nat n = (if n < 10 then [digit_char n] else str_nat (n div 10) @ [digit_char (n mod 10)])"

declare str_nat.simps [simp del]

definition str_int :: "int \<Rightarrow> string" where
  "str_int i = (if i < 0 then CHR ''-'' # str_nat (nat (- i)) else str_nat (nat i))"

text \<open>
  \<^verbatim>\<open>repr(s)\<close> for a str: single quotes, unless the string has a single quote and no double
  quote; the quote and the backslash are escaped, tab, newline and carriage return are
  written \<^verbatim>\<open>\t \n \r\<close>, and every other non-printable character \<^verbatim>\<open>\xhh\<close>.
\<close>

definition hex_char :: "nat \<Rightarrow> char" where
  "hex_char d = ''0123456789abcdef'' ! (d mod 16)"

definition py_isprintable :: "char \<Rightarrow> bool" where
  "py_isprintable c =
     (let n = (of_char c :: nat)
      in (32 \<le> n \<and> n \<le> 126) \<or> (161 \<le> n \<and> n \<noteq> 173))"

definition repr_char :: "char \<Rightarrow> char \<Rightarrow> string" where
  "repr_char quote c =
     (if c = quote \<or> c = CHR 0x5C then [CHR 0x5C, c]
      else if c = CHR 0x09 then [CHR 0x5C, CHR ''t'']
      else if c = CHR 0x0A then [CHR 0x5C, CHR ''n'']
      else if c = CHR 0x0D then [CHR 0x5C, CHR ''r'']
      else if py_isprintable c then [c]
      else [CHR 0x5C, CHR ''x'', hex_char (of_char c div 16), hex_char (of_char c mod 16)])"

definition repr_str :: "string \<Rightarrow> string" where
  "repr_str s =
     (let quote = (if CHR 0x27 \<in> set s \<and> CHR 0x22 \<notin> set s then CHR 0x22 else CHR 0x27)
      in quote # concat (map (repr_char quote) s) @ [quote])"

fun py_repr :: "pyval \<Rightarrow> string" where
  "py_repr PNone = ''None''"
| "py_repr (PBool b) = (if b then ''True'' else ''False'')"
| "py_repr (PInt i) = str_int i"
| "py_repr (PFloat r) = r"
| "py_repr (PStr s) = repr_str s"
| "py_repr (PList xs) = ''['' @ join '', '' (map py_repr xs) @ '']''"
| "py_repr (PDict kvs) =
     ''{'' @ join '', '' (map (\<lambda>(k, v). repr_str k @ '': '' @ py_repr v) kvs) @ ''}''"

text \<open>
  \<^verbatim>\<open>str(v)\<close>, which is also what a replacement field \<^verbatim>\<open>{v}\<close> of an f-string prints:
  a str is printed as it is, every other value as its \<^verbatim>\<open>repr\<close>.
\<close>

definition py_str :: "pyval \<Rightarrow> string" where
  "py_str v = (case v of PStr s \<Rightarrow> s | _ \<Rightarrow> py_repr v)"

definition type_name :: "pyval \<Rightarrow> string" where
  "type_name v =
     (case v of PNone \<Rightarrow> ''NoneType'' | PBool _ \<Rightarrow> ''bool'' | PInt _ \<Rightarrow> ''int''
      | PFloat _ \<Rightarrow> ''float'' | PStr _ \<Rightarrow> ''str'' | PList _ \<Rightarrow> ''list'' | PDict _ \<Rightarrow> ''dict'')"

subsection \<open>Exceptions\<close>

text \<open>
  \<open>Exception m\<close> is an exception raised by a library (the SDK, \<^verbatim>\<open>requests\<close>, the JSON
  decoder) with \<^verbatim>\<open>str(e) = m\<close>; the others are raised by the interpreter when a decoded
  body does not have the shape the code subscripts. Only instances of \<^verbatim>\<open>Exception\<close> are
  modelled; an asynchronous \<^verbatim>\<open>KeyboardInterrupt\<close> is not.
\<close>

datatype exn =
    Exception string
  | TypeError string
  | KeyError pyval
  | IndexError string

definition str_exn :: "exn \<Rightarrow> string" where
  "str_exn e =
     (case e of Exception m \<Rightarrow> m | TypeError m \<Rightarrow> m | KeyError k \<Rightarrow> py_repr k
      | IndexError m \<Rightarrow> m)"

text \<open>\<^verbatim>\<open>key in v\<close> for a str key.\<close>

definition py_contains :: "string \<Rightarrow> pyval \<Rightarrow> exn + bool" where
  "py_contains key v =
     (case v of
        PDict kvs \<Rightarrow> Inr (key \<in> set (map fst kvs))
      | PList xs \<Rightarrow> Inr (PStr key \<in> set xs)
      | PStr s \<Rightarrow> Inr (sublist key s)
      | _ \<Rightarrow> Inl (TypeError (''argument of type '' @ [CHR 0x27] @ type_name v @ [CHR 0x27]
                 @ '' is not iterable'')))"

text \<open>\<^verbatim>\<open>v[key]\<close> for a str key.\<close>

definition py_getitem_str :: "pyval \<Rightarrow> string \<Rightarrow> exn + pyval" where
  "py_getitem_str v key =
     (case v of
        PDict kvs \<Rightarrow> (case map_of kvs key of None \<Rightarrow> Inl (KeyError (PStr key)) | Some x \<Rightarrow> Inr x)
      | PList _ \<Rightarrow> Inl (TypeError ''list indices must be integers or slices, not str'')
      | PStr _ \<Rightarrow> Inl (TypeError (''string indices must be integers, not '' @ [CHR 0x27] @ ''str''
                 @ [CHR 0x27]))
      | _ \<Rightarrow> Inl (TypeError ([CHR 0x27] @ type_name v @ [CHR 0x27]
                 @ '' object is not subscriptable'')))"

text \<open>
  \<^verbatim>\<open>v[i]\<close> for an int index. \<open>py_index len i\<close> is the position that the index \<open>i\<close>
  names in a sequence of \<open>len\<close> items (from the end when \<open>i\<close> is negative), if there is one.
\<close>

definition py_index :: "nat \<Rightarrow> int \<Rightarrow> nat option" where
  "py_index len i =
     (if i < - int len \<or> int len \<le> i then None
      else if i < 0 then Some (nat (int len + i))
      else Some (nat i))"

definition py_getitem_int :: "pyval \<Rightarrow> int \<Rightarrow> exn + pyval" where
  "py_getitem_int v i =
     (case v of
        PDict kvs \<Rightarrow> Inl (KeyError (PInt i))
      | PList xs \<Rightarrow>
          (case py_index (length xs) i of
             None \<Rightarrow> Inl (IndexError ''list index out of range'')
           | Some pos \<Rightarrow> Inr (xs ! pos))
      | PStr s \<Rightarrow>
          (case py_index (length s) i of
             None \<Rightarrow> Inl (IndexError ''string index out of range'')
           | Some pos \<Rightarrow> Inr (PStr [s ! pos]))
      | _ \<Rightarrow> Inl (TypeError ([CHR 0x27] @ type_name v @ [CHR 0x27]
                 @ '' object is not subscriptable'')))"

text \<open>\<^verbatim>\<open>len(v)\<close>\<close>

definition py_len :: "pyval \<Rightarrow> exn + nat" where
  "py_len v =
     (case v of
        PDict kvs \<Rightarrow> Inr (length kvs)
      | PList xs \<Rightarrow> Inr (length xs)
      | PStr s \<Rightarrow> Inr (length s)
      | _ \<Rightarrow> Inl (TypeError (''object of type '' @ [CHR 0x27] @ type_name v @ [CHR 0x27]
                 @ '' has no len()'')))"

subsection \<open>\<^verbatim>\<open>str.strip\<close> and \<^verbatim>\<open>int\<close>\<close>

definition py_isspace :: "char \<Rightarrow> bool" where
  "py_isspace c =
     (let n = (of_char c :: nat)
      in (9 \<le> n \<and> n \<le> 13) \<or> (28 \<le> n \<and> n \<le> 32) \<or> n = 133 \<or> n = 160)"

definition strip :: "string \<Rightarrow> string" where
  "strip s = rev (dropWhile py_isspace (rev (dropWhile py_isspace s)))"

definition is_digit :: "char \<Rightarrow> bool" where
  "is_digit c = (let n = (of_char c :: nat) in 48 \<le> n \<and> n \<le> 57)"

definition digit_val :: "char \<Rightarrow> int" where
  "digit_val c = int (of_char c) - 48"

text \<open>
  The digits of a decimal literal after the first one: a single underscore may stand
  between two digits. \<open>acc\<close> is the value read so far.
\<close>

fun int_digits :: "int \<Rightarrow> string \<Rightarrow> int option" where
  "int_digits acc [] = Some acc"
| "int_digits acc (c # cs) =
     (if is_digit c then int_digits (10 * acc + digit_val c) cs
      else if c = CHR ''_'' then
        (case cs of
           [] \<Rightarrow> None
         | d # ds \<Rightarrow> if is_digit d then int_digits (10 * acc + digit_val d) ds else None)
      else None)"

text \<open>
  The interpreter refuses to convert a decimal literal of more than \<open>max_str_digits\<close>
  digits (4300 unless it is configured otherwise): \<^verbatim>\<open>int\<close> raises \<^verbatim>\<open>ValueError\<close> then, as
  \<^verbatim>\<open>str\<close> does on an int that long. The sign and the underscores do not count.
\<close>

definition max_str_digits :: nat where
  "max_str_digits = 4300"

definition int_unsigned :: "string \<Rightarrow> int option" where
  "int_unsigned s =
     (if max_str_digits < length (filter is_digit s) then None
      else case s of
             [] \<Rightarrow> None
           | c # cs \<Rightarrow> if is_digit c then int_digits (digit_val c) cs else None)"

text \<open>
  \<^verbatim>\<open>int(s)\<close> in base 10: surrounding whitespace, an optional sign, then the digits.
  \<open>None\<close> is the \<^verbatim>\<open>ValueError\<close>.
\<close>

definition py_int :: "string \<Rightarrow> int option" where
  "py_int s =
     (case strip s of
        [] \<Rightarrow> None
      | c # cs \<Rightarrow>
          if c = CHR ''+'' then int_unsigned cs
          else if c = CHR ''-'' then map_option uminus (int_unsigned cs)
          else int_unsigned (c # cs))"

section \<open>The orchestrator \<^verbatim>\<open>AIAgentSystem\<close>\<close>

text \<open>
  The two remote services are parameters. A call takes the state of the outside world and
  returns the new one, with either the exception it raised or its result: the text of the
  generated response for \<^verbatim>\<open>gemini_client.models.generate_content(model, contents).text\<close>,
  the decoded body for \<^verbatim>\<open>requests.post(url, headers, json).json()\<close>. The text of a
  response is taken to be a str, and a call is taken to come back: no timeout is set, and a
  call that blocks for ever is outside the model. Console output is not modelled, and the
  construction of the SDK client in \<^verbatim>\<open>__init__\<close> is taken to succeed.
\<close>

record 'w services =
  generate_content :: "'w \<Rightarrow> string \<Rightarrow> string \<Rightarrow> (exn + string) \<times> 'w"
  post_json :: "'w \<Rightarrow> string \<Rightarrow> pyval \<Rightarrow> pyval \<Rightarrow> (exn + pyval) \<times> 'w"

record 'w agent_system =
  gemini_api_key :: "string option"
  groq_api_key :: "string option"
  gemini_model :: string
  groq_api_url :: string
  groq_model :: string
  conversation :: "pyval list"
  world :: 'w

text \<open>\<^verbatim>\<open>a or b\<close> on an optional string: \<open>None\<close> and the empty string are false.\<close>

definition py_or :: "string option \<Rightarrow> string option \<Rightarrow> string option" where
  "py_or a b = (case a of None \<Rightarrow> b | Some s \<Rightarrow> if s = [] then b else a)"

definition init ::
  "(string \<Rightarrow> string option) \<Rightarrow> string option \<Rightarrow> string option \<Rightarrow> 'w \<Rightarrow> 'w agent_system" where
  "init environ gemini_key groq_key w =
     \<lparr> gemini_api_key = py_or gemini_key (environ ''GEMINI_API_KEY''),
       groq_api_key = py_or groq_key (environ ''GROQ_API_KEY''),
       gemini_model = ''gemini-2.0-flash'',
       groq_api_url = ''https://api.groq.com/openai/v1/chat/completions'',
       groq_model = ''deepseek-r1-distill-llama-70b'',
       conversation = [],
       world = w \<rparr>"

subsection \<open>The two model clients\<close>

definition gemini_agent ::
  "'w services \<Rightarrow> 'w agent_system \<Rightarrow> string \<Rightarrow> string \<times> 'w agent_system" where
  "gemini_agent srv self prompt =
     (case generate_content srv (world self) (gemini_model self) prompt of
        (Inr text, w) \<Rightarrow> (text, self\<lparr>world := w\<rparr>)
      | (Inl e, w) \<Rightarrow> (''Gemini Agent Error: '' @ str_exn e, self\<lparr>world := w\<rparr>))"

definition groq_headers :: "'w agent_system \<Rightarrow> pyval" where
  "groq_headers self =
     PDict [(''Authorization'',
               PStr (''Bearer '' @ (case groq_api_key self of None \<Rightarrow> ''None'' | Some k \<Rightarrow> k))),
            (''Content-Type'', PStr ''application/json'')]"

definition groq_payload :: "'w agent_system \<Rightarrow> string \<Rightarrow> pyval" where
  "groq_payload self prompt =
     PDict [(''model'', PStr (groq_model self)),
            (''messages'', PList [PDict [(''role'', PStr ''user''), (''content'', PStr prompt)]]),
            (''temperature'', PFloat ''0.6''),
            (''max_tokens'', PInt 4096),
            (''top_p'', PFloat ''0.95'')]"

text \<open>
  Lines 54 to 57 of \<^verbatim>\<open>groq_agent\<close>, on the decoded body: \<open>Inl\<close> is an exception raised
  by a membership test, a subscript or \<^verbatim>\<open>len\<close>.
\<close>

definition groq_result :: "pyval \<Rightarrow> exn + pyval" where
  "groq_result response_data =
     (case py_contains ''choices'' response_data of
        Inl e \<Rightarrow> Inl e
      | Inr False \<Rightarrow>
          Inr (PStr (''Groq Agent Error: Unexpected response format - '' @ py_str response_data))
      | Inr True \<Rightarrow>
          (case py_getitem_str response_data ''choices'' of
             Inl e \<Rightarrow> Inl e
           | Inr choices \<Rightarrow>
               (case py_len choices of
                  Inl e \<Rightarrow> Inl e
                | Inr n \<Rightarrow>
                    if n > 0 then
                      (case py_getitem_int choices 0 of
                         Inl e \<Rightarrow> Inl e
                       | Inr choice \<Rightarrow>
                           (case py_getitem_str choice ''message'' of
                              Inl e \<Rightarrow> Inl e
                            | Inr message \<Rightarrow> py_getitem_str message ''content''))
                    else
                      Inr (PStr (''Groq Agent Error: Unexpected response format - ''
                                 @ py_str response_data)))))"

definition groq_agent ::
  "'w services \<Rightarrow> 'w agent_system \<Rightarrow> string \<Rightarrow> pyval \<times> 'w agent_system" where
  "groq_agent srv self prompt =
     (case post_json srv (world self) (groq_api_url self) (groq_headers self)
             (groq_payload self prompt) of
        (Inl e, w) \<Rightarrow> (PStr (''Groq Agent Error: '' @ str_exn e), self\<lparr>world := w\<rparr>)
      | (Inr response_data, w) \<Rightarrow>
          (case groq_result response_data of
             Inl e \<Rightarrow> (PStr (''Groq Agent Error: '' @ str_exn e), self\<lparr>world := w\<rparr>)
           | Inr v \<Rightarrow> (v, self\<lparr>world := w\<rparr>)))"

subsection \<open>The turn planner\<close>

definition planner_prompt :: "string \<Rightarrow> string" where
  \<open>planner_prompt task =
     ''\<newline>'' @
     ''        You are tasked with determining the optimal number of conversation turns needed for two AI agents \<newline>'' @
     ''        to solve this task: "'' @
     task @
     ''"\<newline>'' @
     ''        \<newline>'' @
     ''        Consider:\<newline>'' @
     ''        1. Task complexity (simple tasks need fewer turns)\<newline>'' @
     ''        2. Need for brainstorming (creative tasks may need more turns)\<newline>'' @
     ''        3. Need for refinement (tasks requiring precision may need more turns)\<newline>'' @
     ''        \<newline>'' @
     ''        Return only a number between 3 and 10 representing the optimal number of turns.\<newline>'' @
     ''        ''\<close>

text \<open>
  The \<^verbatim>\<open>try\<close> block of the planner on the response text: the bare \<^verbatim>\<open>except\<close> turns
  the \<^verbatim>\<open>ValueError\<close> of \<^verbatim>\<open>int\<close> into 5.
\<close>

definition parse_turns :: "string \<Rightarrow> int" where
  "parse_turns response =
     (case py_int (strip response) of
        Some turns \<Rightarrow> max 3 (min 10 turns)
      | None \<Rightarrow> 5)"

definition determine_conversation_length ::
  "'w services \<Rightarrow> 'w agent_system \<Rightarrow> string \<Rightarrow> int \<times> 'w agent_system" where
  "determine_conversation_length srv self task =
     (case gemini_agent srv self (planner_prompt task) of
        (response, self') \<Rightarrow> (parse_turns response, self'))"

subsection \<open>The prompt builder\<close>

definition generate_initial_prompts :: "'w agent_system \<Rightarrow> string \<Rightarrow> string \<times> string" where
  \<open>generate_initial_prompts self task =
     (let gemini_prompt =
            ''\<newline>'' @
            ''        You are Agent 1 (Gemini 2.5 Pro), working collaboratively with Agent 2 (Deepseek Llama 70B) on this task:\<newline>'' @
            ''        "'' @
            task @
            ''"\<newline>'' @
            ''        \<newline>'' @
            ''        Your specialties are:\<newline>'' @
            ''        - Creative thinking and ideation\<newline>'' @
            ''        - Structured planning\<newline>'' @
            ''        - Considering multiple perspectives\<newline>'' @
            ''        \<newline>'' @
            ''        Begin by introducing yourself to Agent 2 and outline your initial thoughts on how to approach this task.\<newline>'' @
            ''        Focus on the big picture and strategic elements.\<newline>'' @
            ''        '';
          groq_prompt =
            ''\<newline>'' @
            ''        You are Agent 2 (Deepseek Llama 70B), working collaboratively with Agent 1 (Gemini 2.5 Pro) on this task:\<newline>'' @
            ''        "'' @
            task @
            ''"\<newline>'' @
            ''        \<newline>'' @
            ''        Your specialties are:\<newline>'' @
            ''        - Detailed analysis and implementation\<newline>'' @
            ''        - Technical precision\<newline>'' @
            ''        - Pragmatic refinement of ideas\<newline>'' @
            ''        \<newline>'' @
            ''        Wait for Agent 1's initial thoughts, then respond with your specialized perspective.\<newline>'' @
            ''        Feel free to build on their ideas while adding your technical insights.\<newline>'' @
            ''        ''
      in (gemini_prompt, groq_prompt))\<close>

text \<open>
  The local \<^verbatim>\<open>history_text\<close> of \<^verbatim>\<open>generate_follow_up_prompts\<close> (line 117):
  the list comprehension over \<^verbatim>\<open>enumerate(conversation_history)\<close>, joined.
\<close>

definition follow_up_history_text :: "pyval list \<Rightarrow> string" where
  \<open>follow_up_history_text conversation_history =
     join ''\<newline>\<newline>''
       (map (\<lambda>(i, msg).
               (if i mod 2 = 0 then ''Agent 1 (Gemini)'' else ''Agent 2 (Deepseek)'')
               @ '': '' @ py_str msg)
            (enumerate 0 conversation_history))\<close>

definition generate_follow_up_prompts ::
  "'w agent_system \<Rightarrow> pyval list \<Rightarrow> int \<Rightarrow> int \<Rightarrow> string \<Rightarrow> string \<times> string" where
  \<open>generate_follow_up_prompts self conversation_history turn_number max_turns task =
     (let history_text = follow_up_history_text conversation_history;
          gemini_prompt =
            ''\<newline>'' @
            ''        You are Agent 1 (Gemini 2.5 Pro). Review the conversation so far about the task: "'' @
            task @
            ''"\<newline>'' @
            ''        \<newline>'' @
            ''        Conversation history:\<newline>'' @
            ''        '' @
            history_text @
            ''\<newline>'' @
            ''        \<newline>'' @
            ''        This is turn '' @
            str_int turn_number @
            '' of '' @
            str_int max_turns @
            ''.\<newline>'' @
            ''        \<newline>'' @
            ''        '' @
            (if turn_number = max_turns
             then ''As this is the final turn, work with Agent 2 to conclude and present a final solution or recommendation.''
             else ''Continue the collaborative discussion, building on what has been shared so far.'') @
            ''\<newline>'' @
            ''        \<newline>'' @
            ''        Be concise but insightful. Advance the solution forward meaningfully.\<newline>'' @
            ''        '';
          groq_prompt =
            ''\<newline>'' @
            ''        You are Agent 2 (Deepseek Llama 70B). Review the conversation so far about the task: "'' @
            task @
            ''"\<newline>'' @
            ''        \<newline>'' @
            ''        Conversation history:\<newline>'' @
            ''        '' @
            history_text @
            ''\<newline>'' @
            ''        \<newline>'' @
            ''        This is turn '' @
            str_int turn_number @
            '' of '' @
            str_int max_turns @
            ''.\<newline>'' @
            ''        \<newline>'' @
            ''        '' @
            (if turn_number = max_turns
             then ''As this is the final turn, work with Agent 1 to conclude and present a final solution or recommendation.''
             else ''Continue the collaborative discussion, building on what has been shared so far.'') @
            ''\<newline>'' @
            ''        \<newline>'' @
            ''        Be concise but insightful. Advance the solution forward meaningfully.\<newline>'' @
            ''        ''
      in (gemini_prompt, groq_prompt))\<close>

subsection \<open>The summarizer\<close>

text \<open>The local \<^verbatim>\<open>history_text\<close> of \<^verbatim>\<open>generate_summary\<close> (line 153); its parameter
  \<^verbatim>\<open>conversation\<close> is \<open>transcript\<close> here.\<close>

definition summary_history_text :: "pyval list \<Rightarrow> string" where
  \<open>summary_history_text transcript =
     join ''\<newline>\<newline>''
       (map (\<lambda>(i, msg).
               (if i mod 2 = 0 then ''Agent 1 (Gemini)'' else ''Agent 2 (Deepseek)'')
               @ '': '' @ py_str msg)
            (enumerate 0 transcript))\<close>

definition summary_prompt :: "string \<Rightarrow> pyval list \<Rightarrow> string" where
  \<open>summary_prompt task transcript =
     ''\<newline>'' @
     ''        Review this conversation between two AI agents collaborating on the task: "'' @
     task @
     ''"\<newline>'' @
     ''        \<newline>'' @
     ''        Full conversation:\<newline>'' @
     ''        '' @
     summary_history_text transcript @
     ''\<newline>'' @
     ''        \<newline>'' @
     ''        Provide:\<newline>'' @
     ''        1. A concise summary of the key insights and ideas generated\<newline>'' @
     ''        2. The final solution or approach recommended\<newline>'' @
     ''        3. How the collaboration between agents enhanced the result\<newline>'' @
     ''        \<newline>'' @
     ''        Format your response as a structured final report.\<newline>'' @
     ''        ''\<close>

definition generate_summary ::
  "'w services \<Rightarrow> 'w agent_system \<Rightarrow> string \<Rightarrow> pyval list \<Rightarrow> string \<times> 'w agent_system" where
  "generate_summary srv self task transcript =
     gemini_agent srv self (summary_prompt task transcript)"

subsection \<open>The conversation loop\<close>

text \<open>\<^verbatim>\<open>self.conversation.append(x)\<close>\<close>

definition append_conversation :: "pyval \<Rightarrow> 'w agent_system \<Rightarrow> 'w agent_system" where
  "append_conversation x self = self\<lparr>conversation := conversation self @ [x]\<rparr>"

text \<open>
  A response is appended to the transcript as soon as it is there:
  \<^verbatim>\<open>gemini_response = self.gemini_agent(p); self.conversation.append(gemini_response)\<close>
  (lines 184, 185 and 205, 206), and the same for Client B (lines 190, 191 and 211, 212).
\<close>

definition gemini_turn :: "'w services \<Rightarrow> string \<Rightarrow> 'w agent_system \<Rightarrow> string \<times> 'w agent_system" where
  "gemini_turn srv prompt self =
     (case gemini_agent srv self prompt of
        (gemini_response, self') \<Rightarrow>
          (gemini_response, append_conversation (PStr gemini_response) self'))"

definition groq_turn :: "'w services \<Rightarrow> string \<Rightarrow> 'w agent_system \<Rightarrow> 'w agent_system" where
  "groq_turn srv prompt self =
     (case groq_agent srv self prompt of
        (groq_response, self') \<Rightarrow> append_conversation groq_response self')"

text \<open>Lines 180 to 192: the initial exchange.\<close>

definition initial_exchange :: "'w services \<Rightarrow> string \<Rightarrow> 'w agent_system \<Rightarrow> 'w agent_system" where
  \<open>initial_exchange srv task self =
     (case generate_initial_prompts self task of
        (gemini_prompt, groq_prompt) \<Rightarrow>
          (case gemini_turn srv gemini_prompt self of
             (gemini_response, self') \<Rightarrow>
               groq_turn srv (groq_prompt @ ''\<newline>\<newline>Agent 1 said: '' @ gemini_response) self'))\<close>

text \<open>
  The body of the \<^verbatim>\<open>for\<close> loop (lines 196 to 213) at one turn index. Both prompts are
  built before Client A is called.
\<close>

definition turn_body ::
  "'w services \<Rightarrow> int \<Rightarrow> string \<Rightarrow> int \<Rightarrow> 'w agent_system \<Rightarrow> 'w agent_system" where
  "turn_body srv max_turns task turn self =
     (case generate_follow_up_prompts self (conversation self) turn max_turns task of
        (gemini_prompt, groq_prompt) \<Rightarrow>
          (case gemini_turn srv gemini_prompt self of
             (gemini_response, self') \<Rightarrow> groq_turn srv groq_prompt self'))"

text \<open>
  Lines 180 to 213: the initial exchange, then \<^verbatim>\<open>for turn in range(2, max_turns + 1)\<close>.
\<close>

definition conversation_loop ::
  "'w services \<Rightarrow> int \<Rightarrow> string \<Rightarrow> 'w agent_system \<Rightarrow> 'w agent_system" where
  "conversation_loop srv max_turns task self =
     fold (turn_body srv max_turns task) [2..max_turns] (initial_exchange srv task self)"

text \<open>
  \<^verbatim>\<open>collaborate\<close> returns the result dict and leaves the instance in its new state. The
  dict holds the transcript as the instance has it at the return.
\<close>

definition collaborate ::
  "'w services \<Rightarrow> 'w agent_system \<Rightarrow> string \<Rightarrow> pyval \<times> 'w agent_system" where
  "collaborate srv self task =
     (case determine_conversation_length srv self task of
        (max_turns, self1) \<Rightarrow>
          (let self2 = conversation_loop srv max_turns task self1
           in case generate_summary srv self2 task (conversation self2) of
                (summary, self3) \<Rightarrow>
                  (PDict [(''task'', PStr task),
                          (''conversation_turns'', PInt max_turns),
                          (''conversation'', PList (conversation self3)),
                          (''summary'', PStr summary)],
                   self3)))"

subsection \<open>The calls of Client B within a run\<close>

text \<open>
  \<open>instance_at_turn\<close> is the instance as \<^verbatim>\<open>collaborate\<close> has it when a turn begins: after
  the planner for turn 1 (the initial exchange), after the initial exchange and the loop
  turns before it for a later turn. \<open>groq_call\<close> is the instance and the prompt with which
  \<^verbatim>\<open>collaborate\<close> calls \<^verbatim>\<open>groq_agent\<close> in that turn (line 190 in turn 1, line 211 later).
\<close>

definition instance_at_turn ::
  "'w services \<Rightarrow> 'w agent_system \<Rightarrow> string \<Rightarrow> int \<Rightarrow> 'w agent_system" where
  "instance_at_turn srv self task turn =
     (case determine_conversation_length srv self task of
        (max_turns, self1) \<Rightarrow>
          if turn \<le> 1 then self1
          else fold (turn_body srv max_turns task) [2..turn - 1] (initial_exchange srv task self1))"

definition groq_call ::
  "'w services \<Rightarrow> 'w agent_system \<Rightarrow> string \<Rightarrow> int \<Rightarrow> 'w agent_system \<times> string" where
  \<open>groq_call srv self task turn =
     (let max_turns = fst (determine_conversation_length srv self task);
          s = instance_at_turn srv self task turn
      in if turn \<le> 1 then
           (case generate_initial_prompts s task of
              (gemini_prompt, groq_prompt) \<Rightarrow>
                (case gemini_turn srv gemini_prompt s of
                   (gemini_response, s') \<Rightarrow>
                     (s', groq_prompt @ ''\<newline>\<newline>Agent 1 said: '' @ gemini_response)))
         else
           (case generate_follow_up_prompts s (conversation s) turn max_turns task of
              (gemini_prompt, groq_prompt) \<Rightarrow>
                (case gemini_turn srv gemini_prompt s of
                   (gemini_response, s') \<Rightarrow> (s', groq_prompt))))\<close>

section \<open>Services for the worked examples\<close>

text \<open>
  Services that answer every call with the same reply, whatever the request; the world has
  no state. \<open>no_environ\<close> is an environment with no variable set.
\<close>

definition constant_services :: "exn + string \<Rightarrow> exn + pyval \<Rightarrow> unit services" where
  "constant_services gemini_reply groq_reply =
     \<lparr> generate_content = (\<lambda>w model contents. (gemini_reply, w)),
       post_json = (\<lambda>w url headers payload. (groq_reply, w)) \<rparr>"

definition no_environ :: "string \<Rightarrow> string option" where
  "no_environ name = None"

text \<open>The body \<^verbatim>\<open>{"choices": [{"message": {"content": c}}]}\<close> of a successful completion.\<close>

definition completion :: "string \<Rightarrow> pyval" where
  "completion c = PDict [(''choices'', PList [PDict [(''message'', PDict [(''content'', PStr c)])]])]"

(*PERSISTER_DEFS*)

section \<open>Authorship of the transcript entries\<close>

text \<open>
  The prompts label the entry at an even index as Client A's and the entry at an odd index
  as Client B's. \<open>alternates A B xs\<close>: the entries of \<open>xs\<close> at even indices satisfy \<open>A\<close>,
  those at odd indices \<open>B\<close>.
\<close>

fun alternates :: "('a \<Rightarrow> bool) \<Rightarrow> ('a \<Rightarrow> bool) \<Rightarrow> 'a list \<Rightarrow> bool" where
  "alternates A B [] = True"
| "alternates A B (x # xs) = (A x \<and> alternates B A xs)"

section \<open>The fixed phrasings of the prompts\<close>

text \<open>
  The sentences that a test looks for in a prompt: the two instructions of a follow-up
  prompt (the one for the final turn names the other agent), the lines that close a
  follow-up prompt, and the opening instructions of the two initial prompts.
\<close>

definition conclusion_text_gemini :: string where
  "conclusion_text_gemini =
     ''As this is the final turn, work with Agent 2 to conclude and present a final solution or recommendation.''"

definition conclusion_text_groq :: string where
  "conclusion_text_groq =
     ''As this is the final turn, work with Agent 1 to conclude and present a final solution or recommendation.''"

definition continuation_text :: string where
  "continuation_text =
     ''Continue the collaborative discussion, building on what has been shared so far.''"

definition closing_text :: string where
  "closing_text =
     ''\<newline>'' @
     ''        \<newline>'' @
     ''        Be concise but insightful. Advance the solution forward meaningfully.\<newline>'' @
     ''        ''"

definition introduction_text :: string where
  "introduction_text =
     ''Begin by introducing yourself to Agent 2 and outline your initial thoughts on how to approach this task.''"

definition wait_text :: string where
  \<open>wait_text =
     ''Wait for Agent 1's initial thoughts, then respond with your specialized perspective.''\<close>

text \<open>
  The rendering of a transcript as the specification words it: the entry at an even index
  is labelled as Agent 1 (Gemini), the entry at an odd index as Agent 2 (Deepseek), and the
  labelled entries are joined, in order, by a blank line.
\<close>

fun label_entries :: "nat \<Rightarrow> pyval list \<Rightarrow> string list" where
  "label_entries i [] = []"
| "label_entries i (msg # rest) =
     ((if even i then ''Agent 1 (Gemini)'' else ''Agent 2 (Deepseek)'') @ '': '' @ py_str msg)
       # label_entries (Suc i) rest"

definition render_history :: "pyval list \<Rightarrow> string" where
  "render_history transcript = join ''\<newline>\<newline>'' (label_entries 0 transcript)"

section \<open>Properties\<close>

subsection \<open>What each operation does to the transcript\<close>

lemma gemini_agent_conversation:
  "conversation (snd (gemini_agent srv self prompt)) = conversation self"
  by (simp add: gemini_agent_def split: prod.splits sum.splits)

lemma groq_agent_conversation:
  "conversation (snd (groq_agent srv self prompt)) = conversation self"
  by (simp add: groq_agent_def split: prod.splits sum.splits)

lemma gemini_agent_fst:
  "fst (gemini_agent srv self prompt) =
     (case fst (generate_content srv (world self) (gemini_model self) prompt) of
        Inl e \<Rightarrow> ''Gemini Agent Error: '' @ str_exn e
      | Inr text \<Rightarrow> text)"
  by (simp add: gemini_agent_def split: prod.splits sum.splits)

lemma gemini_turn_conversation:
  "conversation (snd (gemini_turn srv prompt self)) =
     conversation self @ [PStr (fst (gemini_agent srv self prompt))]"
  using gemini_agent_conversation [of srv self prompt]
  by (auto simp add: gemini_turn_def append_conversation_def split: prod.splits)

lemma gemini_turn_fst:
  "fst (gemini_turn srv prompt self) = fst (gemini_agent srv self prompt)"
  by (simp add: gemini_turn_def split: prod.splits)

lemma groq_turn_conversation:
  "conversation (groq_turn srv prompt self) =
     conversation self @ [fst (groq_agent srv self prompt)]"
  using groq_agent_conversation [of srv self prompt]
  by (auto simp add: groq_turn_def append_conversation_def split: prod.splits)

lemma initial_exchange_conversation:
  "\<exists>a b. conversation (initial_exchange srv task self) = conversation self @ [PStr a, b]"
  by (simp add: initial_exchange_def groq_turn_conversation split: prod.splits)
     (metis gemini_turn_conversation snd_conv)

lemma turn_body_conversation:
  "\<exists>a b. conversation (turn_body srv max_turns task turn self) = conversation self @ [PStr a, b]"
  by (simp add: turn_body_def groq_turn_conversation split: prod.splits)
     (metis gemini_turn_conversation snd_conv)

lemma turn_body_length:
  "length (conversation (turn_body srv max_turns task turn self)) = length (conversation self) + 2"
  using turn_body_conversation [of srv max_turns task turn self] by auto

lemma fold_turn_body_length:
  "length (conversation (fold (turn_body srv max_turns task) ts self)) =
     length (conversation self) + 2 * length ts"
  by (induction ts arbitrary: self) (simp_all add: turn_body_length)

lemma fold_turn_body_prefix:
  "prefix (conversation self) (conversation (fold (turn_body srv max_turns task) ts self))"
proof (induction ts arbitrary: self)
  case Nil
  show ?case by simp
next
  case (Cons t ts)
  obtain a b where
    "conversation (turn_body srv max_turns task t self) = conversation self @ [PStr a, b]"
    using turn_body_conversation by blast
  then have "prefix (conversation self) (conversation (turn_body srv max_turns task t self))"
    by simp
  moreover have "prefix (conversation (turn_body srv max_turns task t self))
      (conversation (fold (turn_body srv max_turns task) ts (turn_body srv max_turns task t self)))"
    by (rule Cons.IH)
  ultimately show ?case
    using prefix_order.trans by fastforce
qed

lemma conversation_loop_length:
  "length (conversation (conversation_loop srv max_turns task self)) =
     length (conversation self) + 2 + 2 * nat (max_turns - 1)"
  using initial_exchange_conversation [of srv task self]
  by (auto simp add: conversation_loop_def fold_turn_body_length)

lemma generate_summary_conversation:
  "conversation (snd (generate_summary srv self task transcript)) = conversation self"
  by (simp add: generate_summary_def gemini_agent_conversation)

lemma determine_conversation_length_conversation:
  "conversation (snd (determine_conversation_length srv self task)) = conversation self"
  using gemini_agent_conversation [of srv self "planner_prompt task"]
  by (auto simp add: determine_conversation_length_def split: prod.splits)

lemma determine_conversation_length_fst:
  "fst (determine_conversation_length srv self task) =
     parse_turns (fst (gemini_agent srv self (planner_prompt task)))"
  by (simp add: determine_conversation_length_def split: prod.splits)

lemma parse_turns_range: "3 \<le> parse_turns response \<and> parse_turns response \<le> 10"
  by (simp add: parse_turns_def split: option.splits)

lemma determine_conversation_length_range:
  "3 \<le> fst (determine_conversation_length srv self task) \<and>
   fst (determine_conversation_length srv self task) \<le> 10"
  by (simp add: determine_conversation_length_fst parse_turns_range)

lemma collaborate_conversation:
  "conversation (snd (collaborate srv self task)) =
     conversation (conversation_loop srv (fst (determine_conversation_length srv self task)) task
        (snd (determine_conversation_length srv self task)))"
  by (simp add: collaborate_def Let_def generate_summary_conversation split: prod.splits)
     (metis generate_summary_conversation snd_conv)

lemma collaborate_length:
  "int (length (conversation (snd (collaborate srv self task)))) =
     int (length (conversation self)) + 2 * fst (determine_conversation_length srv self task)"
  using determine_conversation_length_range [of srv self task]
  by (simp add: collaborate_conversation conversation_loop_length
        determine_conversation_length_conversation)

subsection \<open>The turn planner\<close>

lemma strip_Cons_nonspace:
  assumes "\<not> py_isspace c"
  shows "strip (c # cs) = c # rev (dropWhile py_isspace (rev cs))"
  using assms by (simp add: strip_def dropWhile_append3)

lemma py_int_strip_not_numeric:
  assumes "\<not> py_isspace c" and "\<not> is_digit c" and "c \<noteq> CHR ''+''" and "c \<noteq> CHR ''-''"
  shows "py_int (strip (c # cs)) = None"
proof -
  obtain r where r: "strip (c # cs) = c # r"
    using strip_Cons_nonspace [OF assms(1)] by simp
  obtain r' where r': "strip (c # r) = c # r'"
    using strip_Cons_nonspace [OF assms(1)] by simp
  show ?thesis
    using assms by (simp add: py_int_def r r' int_unsigned_def)
qed

lemma parse_turns_error: "parse_turns (''Gemini Agent Error: '' @ m) = 5"
proof -
  have "py_int (strip (CHR ''G'' # ''emini Agent Error: '' @ m)) = None"
    by (rule py_int_strip_not_numeric) (simp_all add: py_isspace_def is_digit_def)
  then show ?thesis
    by (simp add: parse_turns_def)
qed

lemma py_int_15: "py_int (strip ''15'') = Some 15"
  by (simp add: py_int_def strip_def py_isspace_def int_unsigned_def max_str_digits_def is_digit_def
        digit_val_def)

lemma py_int_1: "py_int (strip ''1'') = Some 1"
  by (simp add: py_int_def strip_def py_isspace_def int_unsigned_def max_str_digits_def is_digit_def
        digit_val_def)

lemma py_int_text: "py_int (strip ''about five'') = None"
  by (simp add: py_int_def strip_def py_isspace_def int_unsigned_def max_str_digits_def is_digit_def
        digit_val_def)

lemma constant_services_generate_content:
  "generate_content (constant_services r q) w model contents = (r, w)"
  by (simp add: constant_services_def)

lemma constant_services_post_json:
  "post_json (constant_services r q) w url headers payload = (q, w)"
  by (simp add: constant_services_def)

lemma strip_no_space:
  assumes "s \<noteq> []" and "\<not> py_isspace (hd s)" and "\<not> py_isspace (last s)"
  shows "strip s = s"
proof -
  have a: "dropWhile py_isspace s = s"
    using assms(1,2) by (cases s) simp_all
  have "rev s \<noteq> []" "\<not> py_isspace (hd (rev s))"
    using assms(1,3) by (simp_all add: hd_rev)
  then have "dropWhile py_isspace (rev s) = rev s"
    by (cases "rev s") simp_all
  then show ?thesis
    by (simp add: strip_def a)
qed

lemma nine_digit: "is_digit CHR ''9''" "\<not> py_isspace CHR ''9''" "digit_val CHR ''9'' = 9"
  by (simp_all add: is_digit_def py_isspace_def digit_val_def)

lemma strip_nines: "strip (replicate (Suc n) CHR ''9'') = replicate (Suc n) CHR ''9''"
  by (rule strip_no_space) (simp_all add: nine_digit del: replicate.simps)

lemma py_int_nines:
  assumes "max_str_digits < Suc n"
  shows "py_int (strip (replicate (Suc n) CHR ''9'')) = None"
proof -
  have "filter is_digit (CHR ''9'' # replicate n CHR ''9'') = CHR ''9'' # replicate n CHR ''9''"
    by (simp add: nine_digit)
  then have "int_unsigned (CHR ''9'' # replicate n CHR ''9'') = None"
    using assms by (simp add: int_unsigned_def)
  moreover have "strip (CHR ''9'' # replicate n CHR ''9'') = CHR ''9'' # replicate n CHR ''9''"
    using strip_nines [of n] by simp
  ultimately show ?thesis
    by (simp add: py_int_def)
qed

lemma int_digits_grows:
  "list_all is_digit xs \<Longrightarrow> 0 \<le> acc \<Longrightarrow> \<exists>v. int_digits acc xs = Some v \<and> acc \<le> v"
proof (induction xs arbitrary: acc)
  case Nil
  then show ?case by simp
next
  case (Cons x xs)
  have x: "is_digit x" and xs: "list_all is_digit xs"
    using Cons.prems(1) by simp_all
  have "0 \<le> digit_val x"
    using x by (simp add: is_digit_def digit_val_def Let_def)
  then have "0 \<le> 10 * acc + digit_val x" "acc \<le> 10 * acc + digit_val x"
    using Cons.prems(2) by simp_all
  then obtain v where "int_digits (10 * acc + digit_val x) xs = Some v" "acc \<le> v"
    using Cons.IH [OF xs, of "10 * acc + digit_val x"] by fastforce
  then show ?case
    using x by simp
qed

lemma nines_value: "10 < the (int_digits 0 (replicate (Suc (Suc n)) CHR ''9''))"
proof -
  have "list_all is_digit (replicate n CHR ''9'')"
    by (simp add: list_all_iff nine_digit)
  then obtain v where "int_digits 99 (replicate n CHR ''9'') = Some v" "99 \<le> v"
    using int_digits_grows [of "replicate n CHR ''9''" 99] by auto
  then show ?thesis
    by (simp add: nine_digit)
qed

lemma parse_turns_nines:
  "max_str_digits < Suc n \<Longrightarrow> parse_turns (replicate (Suc n) CHR ''9'') = 5"
  by (simp only: parse_turns_def py_int_nines option.case)

lemma parse_turns_too_long:
  assumes "max_str_digits < length (filter is_digit (strip (strip text)))"
  shows "py_int (strip text) = None"
proof (cases "strip (strip text)")
  case Nil
  then show ?thesis by (simp add: py_int_def)
next
  case (Cons c cs)
  have sign: "is_digit c \<or> filter is_digit (c # cs) = filter is_digit cs"
    by simp
  have "int_unsigned (c # cs) = None"
    using assms by (simp add: int_unsigned_def Cons)
  moreover have "\<not> is_digit c \<Longrightarrow> int_unsigned cs = None"
    using assms by (simp add: int_unsigned_def Cons)
  moreover have "\<not> is_digit CHR ''+''" "\<not> is_digit CHR ''-''"
    by (simp_all add: is_digit_def)
  ultimately show ?thesis
    by (auto simp add: py_int_def Cons)
qed

lemma filter_digit_dropWhile:
  "filter is_digit (dropWhile py_isspace s) = filter is_digit s"
proof (induction s)
  case Nil
  show ?case by simp
next
  case (Cons c cs)
  have "py_isspace c \<Longrightarrow> \<not> is_digit c"
    by (auto simp add: py_isspace_def is_digit_def Let_def)
  then show ?case
    using Cons.IH by auto
qed

lemma filter_digit_strip: "filter is_digit (strip s) = filter is_digit s"
proof -
  have "filter is_digit (strip s) = rev (filter is_digit (dropWhile py_isspace (rev (dropWhile py_isspace s))))"
    by (simp add: strip_def rev_filter)
  also have "\<dots> = rev (filter is_digit (rev (dropWhile py_isspace s)))"
    by (simp only: filter_digit_dropWhile)
  also have "\<dots> = filter is_digit (dropWhile py_isspace s)"
    by (simp add: rev_filter)
  finally show ?thesis
    by (simp only: filter_digit_dropWhile)
qed

lemma py_int_too_long:
  assumes "max_str_digits < length (filter is_digit text)"
  shows "py_int (strip text) = None"
  by (rule parse_turns_too_long) (simp add: filter_digit_strip assms)


text \<open>
  Claim C2, amended. Whatever the task and whatever Client A answers, the turn planner
  returns a number from 3 to 10. When the call raises, or \<^verbatim>\<open>int\<close> does not accept its text
  (it is not an integer literal, or it has more digits than the interpreter converts), the
  result is the default 5; when \<^verbatim>\<open>int\<close> reads an integer outside 3..10, the result is the
  nearer bound: 3 for a number below 3, 10 for a number above 10.
\<close>

theorem determine_conversation_length_clamped:
  assumes "generate_content srv (world self) (gemini_model self) (planner_prompt task) = (reply, w)"
  shows "3 \<le> fst (determine_conversation_length srv self task) \<and>
         fst (determine_conversation_length srv self task) \<le> 10 \<and>
         (\<forall>e. reply = Inl e \<longrightarrow> fst (determine_conversation_length srv self task) = 5) \<and>
         (\<forall>text. reply = Inr text \<and> py_int (strip text) = None \<longrightarrow>
            fst (determine_conversation_length srv self task) = 5) \<and>
         (\<forall>text. reply = Inr text \<and> max_str_digits < length (filter is_digit text) \<longrightarrow>
            fst (determine_conversation_length srv self task) = 5) \<and>
         (\<forall>text k. reply = Inr text \<and> py_int (strip text) = Some k \<longrightarrow>
            fst (determine_conversation_length srv self task) =
              (if k < 3 then 3 else if 10 < k then 10 else k))"
proof -
  have "\<forall>e. reply = Inl e \<longrightarrow> fst (determine_conversation_length srv self task) = 5"
    using assms parse_turns_error
    by (simp add: determine_conversation_length_fst gemini_agent_fst)
  moreover have none: "\<forall>text. reply = Inr text \<and> py_int (strip text) = None \<longrightarrow>
      fst (determine_conversation_length srv self task) = 5"
    using assms by (simp add: determine_conversation_length_fst gemini_agent_fst parse_turns_def)
  moreover have "\<forall>text. reply = Inr text \<and> max_str_digits < length (filter is_digit text) \<longrightarrow>
      fst (determine_conversation_length srv self task) = 5"
    using none py_int_too_long by blast
  moreover have "\<forall>text k. reply = Inr text \<and> py_int (strip text) = Some k \<longrightarrow>
      fst (determine_conversation_length srv self task) =
        (if k < 3 then 3 else if 10 < k then 10 else k)"
    using assms by (simp add: determine_conversation_length_fst gemini_agent_fst parse_turns_def)
  ultimately show ?thesis
    using determine_conversation_length_range [of srv self task] by blast
qed

theorem determine_conversation_length_clamped_witness:
  "py_int (strip ''15'') = Some 15 \<and>
   fst (determine_conversation_length (constant_services (Inr ''15'') (Inr PNone))
          (init no_environ None None ()) ''Plan a 3-day trip to Kyoto'') = 10 \<and>
   py_int (strip ''1'') = Some 1 \<and>
   fst (determine_conversation_length (constant_services (Inr ''1'') (Inr PNone))
          (init no_environ None None ()) ''Plan a 3-day trip to Kyoto'') = 3 \<and>
   py_int (strip ''about five'') = None \<and>
   fst (determine_conversation_length (constant_services (Inr ''about five'') (Inr PNone))
          (init no_environ None None ()) ''Plan a 3-day trip to Kyoto'') = 5 \<and>
   fst (determine_conversation_length (constant_services (Inl (Exception ''timed out'')) (Inr PNone))
          (init no_environ None None ()) ''Plan a 3-day trip to Kyoto'') = 5"
proof -
  let ?self = "init no_environ None None ()"
  let ?task = "''Plan a 3-day trip to Kyoto''"
  have call: "generate_content (constant_services r q) (world ?self) (gemini_model ?self)
      (planner_prompt ?task) = (r, ())" for r q
    by (simp add: constant_services_def)
  show ?thesis
    using determine_conversation_length_clamped [OF call [of "Inr ''15''" "Inr PNone"]]
      determine_conversation_length_clamped [OF call [of "Inr ''1''" "Inr PNone"]]
      determine_conversation_length_clamped [OF call [of "Inr ''about five''" "Inr PNone"]]
      determine_conversation_length_clamped [OF call [of "Inl (Exception ''timed out'')" "Inr PNone"]]
    by (simp add: py_int_15 py_int_1 py_int_text)
qed

text \<open>
  Claim C2 says that every numeric string outside 3..10 is clamped to the nearer bound. A
  reply of 4301 nines is the decimal literal of a number above 10, but \<^verbatim>\<open>int\<close> raises on a
  literal that long, the bare \<^verbatim>\<open>except\<close> catches it, and the planner returns 5.
\<close>

theorem long_numeric_reply_gives_default:
  "list_all is_digit (replicate 4301 CHR ''9'') \<and>
   10 < the (int_digits 0 (replicate 4301 CHR ''9'')) \<and>
   fst (determine_conversation_length
          (constant_services (Inr (replicate 4301 CHR ''9'')) (Inr PNone))
          (init no_environ None None ()) ''Plan a 3-day trip to Kyoto'') = 5"
proof -
  have n: "(4301::nat) = Suc (Suc 4299)"
    by simp
  have "list_all is_digit (replicate 4301 CHR ''9'')"
    by (simp add: list_all_iff nine_digit)
  moreover have "10 < the (int_digits 0 (replicate 4301 CHR ''9''))"
    unfolding n by (rule nines_value)
  moreover have "parse_turns (replicate 4301 CHR ''9'') = 5"
    unfolding n by (rule parse_turns_nines) (simp add: max_str_digits_def)
  ultimately show ?thesis
    by (simp add: determine_conversation_length_fst gemini_agent_fst
          constant_services_generate_content)
qed

subsection \<open>The conversation loop\<close>

lemma initial_exchange_authors:
  "\<exists>s1 p1 s2 p2. conversation (initial_exchange srv task self) =
      conversation self @ [PStr (fst (gemini_agent srv s1 p1)), fst (groq_agent srv s2 p2)]"
  by (simp add: initial_exchange_def groq_turn_conversation split: prod.splits)
     (metis gemini_turn_conversation snd_conv)

lemma turn_body_authors:
  "\<exists>s1 p1 s2 p2. conversation (turn_body srv max_turns task turn self) =
      conversation self @ [PStr (fst (gemini_agent srv s1 p1)), fst (groq_agent srv s2 p2)]"
  by (simp add: turn_body_def groq_turn_conversation split: prod.splits)
     (metis gemini_turn_conversation snd_conv)

lemma alternates_append:
  "alternates A B (xs @ ys) =
     (alternates A B xs \<and> (if even (length xs) then alternates A B ys else alternates B A ys))"
  by (induction xs arbitrary: A B) auto

lemma alternates_append_pair:
  assumes "alternates A B xs" and "even (length xs)" and "A a" and "B b"
  shows "alternates A B (xs @ [a, b])"
  using assms by (simp add: alternates_append)

lemma turn_body_alternates:
  assumes A: "\<forall>s p. A (PStr (fst (gemini_agent srv s p)))"
    and B: "\<forall>s p. B (fst (groq_agent srv s p))"
    and "even (length (conversation self))" and "alternates A B (conversation self)"
  shows "alternates A B (conversation (turn_body srv max_turns task turn self))"
proof -
  obtain s1 p1 s2 p2 where "conversation (turn_body srv max_turns task turn self) =
      conversation self @ [PStr (fst (gemini_agent srv s1 p1)), fst (groq_agent srv s2 p2)]"
    using turn_body_authors by blast
  then show ?thesis
    using assms by (simp add: alternates_append_pair)
qed

lemma initial_exchange_alternates:
  assumes A: "\<forall>s p. A (PStr (fst (gemini_agent srv s p)))"
    and B: "\<forall>s p. B (fst (groq_agent srv s p))"
    and "even (length (conversation self))" and "alternates A B (conversation self)"
  shows "alternates A B (conversation (initial_exchange srv task self))"
proof -
  obtain s1 p1 s2 p2 where "conversation (initial_exchange srv task self) =
      conversation self @ [PStr (fst (gemini_agent srv s1 p1)), fst (groq_agent srv s2 p2)]"
    using initial_exchange_authors by blast
  then show ?thesis
    using assms by (simp add: alternates_append_pair)
qed

lemma fold_turn_body_alternates:
  assumes A: "\<forall>s p. A (PStr (fst (gemini_agent srv s p)))"
    and B: "\<forall>s p. B (fst (groq_agent srv s p))"
  shows "even (length (conversation self)) \<Longrightarrow> alternates A B (conversation self) \<Longrightarrow>
     alternates A B (conversation (fold (turn_body srv max_turns task) ts self))"
proof (induction ts arbitrary: self)
  case Nil
  then show ?case by simp
next
  case (Cons t ts)
  have "even (length (conversation (turn_body srv max_turns task t self)))"
    using Cons.prems(1) by (simp add: turn_body_length)
  moreover have "alternates A B (conversation (turn_body srv max_turns task t self))"
    using A B Cons.prems by (rule turn_body_alternates)
  ultimately show ?case
    using Cons.IH by simp
qed

lemma initial_exchange_length:
  "length (conversation (initial_exchange srv task self)) = length (conversation self) + 2"
  using initial_exchange_conversation [of srv task self] by auto

lemma collaborate_alternates:
  assumes A: "\<forall>s p. A (PStr (fst (gemini_agent srv s p)))"
    and B: "\<forall>s p. B (fst (groq_agent srv s p))"
    and "even (length (conversation self))" and "alternates A B (conversation self)"
  shows "alternates A B (conversation (snd (collaborate srv self task)))"
proof -
  let ?s0 = "snd (determine_conversation_length srv self task)"
  have c0: "conversation ?s0 = conversation self"
    by (rule determine_conversation_length_conversation)
  have "even (length (conversation (initial_exchange srv task ?s0)))"
    using assms(3) by (simp add: initial_exchange_length c0)
  moreover have "alternates A B (conversation (initial_exchange srv task ?s0))"
    using A B by (rule initial_exchange_alternates) (simp_all add: c0 assms)
  ultimately show ?thesis
    unfolding collaborate_conversation conversation_loop_def
    by (rule fold_turn_body_alternates [OF A B])
qed

lemma collaborate_prefix:
  "prefix (conversation self) (conversation (snd (collaborate srv self task)))"
proof -
  let ?s0 = "snd (determine_conversation_length srv self task)"
  have "prefix (conversation self) (conversation (initial_exchange srv task ?s0))"
    using initial_exchange_conversation [of srv task ?s0]
    by (auto simp add: determine_conversation_length_conversation)
  then show ?thesis
    unfolding collaborate_conversation conversation_loop_def
    using fold_turn_body_prefix prefix_order.trans by blast
qed

lemma collaborate_result:
  "\<exists>summary. fst (collaborate srv self task) =
     PDict [(''task'', PStr task),
            (''conversation_turns'', PInt (fst (determine_conversation_length srv self task))),
            (''conversation'', PList (conversation (snd (collaborate srv self task)))),
            (''summary'', PStr summary)]"
  by (simp add: collaborate_def Let_def split: prod.splits)

text \<open>
  Claim C1. On a fresh run (the transcript is empty when \<^verbatim>\<open>collaborate\<close> is called), for
  the turn budget \<open>N\<close> that the planner returns, the transcript after the conversation loop
  has \<open>2 + 2 * (N - 1) = 2 * N\<close> entries, an even number: the initial exchange appends two,
  and the loop body appends two at every turn index. The summary call appends nothing, and
  \<open>N\<close> is the \<^verbatim>\<open>conversation_turns\<close> of the result.
\<close>

theorem collaborate_transcript_length:
  assumes "conversation self = []"
  shows "int (length (conversation (snd (collaborate srv self task)))) =
           2 + 2 * (fst (determine_conversation_length srv self task) - 1) \<and>
         int (length (conversation (snd (collaborate srv self task)))) =
           2 * fst (determine_conversation_length srv self task) \<and>
         even (length (conversation (snd (collaborate srv self task)))) \<and>
         py_getitem_str (fst (collaborate srv self task)) ''conversation_turns'' =
           Inr (PInt (fst (determine_conversation_length srv self task))) \<and>
         length (conversation
           (initial_exchange srv task (snd (determine_conversation_length srv self task)))) = 2 \<and>
         (\<forall>turn s. length (conversation
             (turn_body srv (fst (determine_conversation_length srv self task)) task turn s)) =
             length (conversation s) + 2)"
proof -
  let ?N = "fst (determine_conversation_length srv self task)"
  let ?len = "length (conversation (snd (collaborate srv self task)))"
  have len: "int ?len = 2 * ?N"
    using assms by (simp add: collaborate_length)
  then have "even (int ?len)"
    by simp
  then have "even ?len"
    by simp
  moreover have "py_getitem_str (fst (collaborate srv self task)) ''conversation_turns'' =
      Inr (PInt ?N)"
    using collaborate_result [of srv self task] by (auto simp add: py_getitem_str_def)
  moreover have "length (conversation (initial_exchange srv task
      (snd (determine_conversation_length srv self task)))) = 2"
    using assms by (simp add: initial_exchange_length determine_conversation_length_conversation)
  ultimately show ?thesis
    using len by (simp add: turn_body_length)
qed

lemma parse_turns_4: "parse_turns ''4'' = 4"
  by (simp add: parse_turns_def py_int_def strip_def py_isspace_def int_unsigned_def
        max_str_digits_def is_digit_def digit_val_def)

theorem collaborate_transcript_length_witness:
  "conversation (init no_environ None None ()) = [] \<and>
   fst (determine_conversation_length (constant_services (Inr ''4'') (Inr (completion ''ok'')))
          (init no_environ None None ()) ''Plan a 3-day trip to Kyoto'') = 4 \<and>
   length (conversation (snd (collaborate (constant_services (Inr ''4'') (Inr (completion ''ok'')))
          (init no_environ None None ()) ''Plan a 3-day trip to Kyoto''))) = 8"
proof -
  let ?srv = "constant_services (Inr ''4'') (Inr (completion ''ok''))"
  let ?self = "init no_environ None None ()"
  let ?task = "''Plan a 3-day trip to Kyoto''"
  have empty: "conversation ?self = []"
    by (simp add: init_def)
  have N: "fst (determine_conversation_length ?srv ?self ?task) = 4"
    by (simp add: determine_conversation_length_fst gemini_agent_fst
          constant_services_generate_content parse_turns_4)
  show ?thesis
    using collaborate_transcript_length [OF empty, of ?srv ?task] empty N by simp
qed

subsection \<open>The model clients\<close>

text \<open>
  Claim C4. When the call to Client A raises an exception \<open>e\<close>, \<^verbatim>\<open>gemini_agent\<close> returns
  the string \<^verbatim>\<open>Gemini Agent Error: \<close> followed by \<^verbatim>\<open>str(e)\<close>. It returns a string in every
  case: the \<^verbatim>\<open>try\<close> covers its whole body, so no exception leaves it.
\<close>

theorem gemini_agent_error_string:
  assumes "generate_content srv (world self) (gemini_model self) prompt = (Inl e, w)"
  shows "gemini_agent srv self prompt =
           (''Gemini Agent Error: '' @ str_exn e, self\<lparr>world := w\<rparr>) \<and>
         prefix ''Gemini Agent Error: '' (fst (gemini_agent srv self prompt))"
  using assms by (simp add: gemini_agent_def)

theorem gemini_agent_error_string_witness:
  "generate_content (constant_services (Inl (Exception ''503 UNAVAILABLE'')) (Inr PNone))
      (world (init no_environ None None ())) (gemini_model (init no_environ None None ()))
      ''Hello'' = (Inl (Exception ''503 UNAVAILABLE''), ()) \<and>
   fst (gemini_agent (constant_services (Inl (Exception ''503 UNAVAILABLE'')) (Inr PNone))
      (init no_environ None None ()) ''Hello'') = ''Gemini Agent Error: 503 UNAVAILABLE''"
proof -
  let ?srv = "constant_services (Inl (Exception ''503 UNAVAILABLE'')) (Inr PNone)"
  let ?self = "init no_environ None None ()"
  have call: "generate_content ?srv (world ?self) (gemini_model ?self) ''Hello'' =
      (Inl (Exception ''503 UNAVAILABLE''), ())"
    by (simp add: constant_services_generate_content)
  show ?thesis
    using gemini_agent_error_string [OF call] call by (simp add: str_exn_def)
qed

subsection \<open>The planner's default\<close>

text \<open>
  Claim C3 says that an integer outside 3..10 gives the default 5, like a response that is
  not a number. The code clamps it instead (\<^verbatim>\<open>max(3, min(10, turns))\<close>): the response
  \<^verbatim>\<open>15\<close> gives 10.
\<close>

theorem out_of_range_reply_not_default:
  "py_int (strip ''15'') = Some 15 \<and> \<not> (3 \<le> (15::int) \<and> (15::int) \<le> 10) \<and>
   fst (determine_conversation_length (constant_services (Inr ''15'') (Inr PNone))
          (init no_environ None None ()) ''Plan a 3-day trip to Kyoto'') = 10 \<and>
   fst (determine_conversation_length (constant_services (Inr ''15'') (Inr PNone))
          (init no_environ None None ()) ''Plan a 3-day trip to Kyoto'') \<noteq> 5"
  by (simp add: py_int_15 determine_conversation_length_fst gemini_agent_fst
        constant_services_generate_content parse_turns_def)

text \<open>
  Claim C3, amended. A response that \<^verbatim>\<open>int\<close> does not accept is mapped to the default 5,
  and no error surfaces. When \<^verbatim>\<open>int\<close> reads an integer below 3 the result is 3, and when it
  reads an integer above 10 the result is 10; the default is returned only for a response
  that \<^verbatim>\<open>int\<close> does not accept, or for the number 5 itself.
\<close>

theorem default_only_on_parse_failure:
  assumes "generate_content srv (world self) (gemini_model self) (planner_prompt task) = (Inr text, w)"
  shows "(py_int (strip text) = None \<longrightarrow> fst (determine_conversation_length srv self task) = 5) \<and>
         (\<forall>k. py_int (strip text) = Some k \<and> k < 3 \<longrightarrow>
            fst (determine_conversation_length srv self task) = 3) \<and>
         (\<forall>k. py_int (strip text) = Some k \<and> 10 < k \<longrightarrow>
            fst (determine_conversation_length srv self task) = 10) \<and>
         (fst (determine_conversation_length srv self task) = 5 \<longrightarrow>
            py_int (strip text) = None \<or> py_int (strip text) = Some 5)"
  using assms
  by (auto simp add: determine_conversation_length_fst gemini_agent_fst parse_turns_def
        split: option.splits)

theorem default_only_on_parse_failure_witness:
  "py_int (strip ''about five'') = None \<and>
   fst (determine_conversation_length (constant_services (Inr ''about five'') (Inr PNone))
          (init no_environ None None ()) ''Plan a 3-day trip to Kyoto'') = 5 \<and>
   py_int (strip ''1'') = Some 1 \<and>
   fst (determine_conversation_length (constant_services (Inr ''1'') (Inr PNone))
          (init no_environ None None ()) ''Plan a 3-day trip to Kyoto'') = 3"
proof -
  let ?self = "init no_environ None None ()"
  have call: "generate_content (constant_services (Inr r) q) (world ?self) (gemini_model ?self)
      (planner_prompt ''Plan a 3-day trip to Kyoto'') = (Inr r, ())" for r q
    by (simp add: constant_services_def)
  show ?thesis
    using default_only_on_parse_failure [OF call [of "''about five''" "Inr PNone"]]
      default_only_on_parse_failure [OF call [of "''1''" "Inr PNone"]]
    by (simp add: py_int_1 py_int_text)
qed

subsection \<open>A body without choices\<close>

lemma instance_at_turn_next:
  assumes "1 \<le> turn"
  shows "instance_at_turn srv self task (turn + 1) =
           groq_turn srv (snd (groq_call srv self task turn)) (fst (groq_call srv self task turn))"
proof (cases "turn = 1")
  case True
  then show ?thesis
    by (simp add: instance_at_turn_def groq_call_def initial_exchange_def Let_def
          split: prod.splits)
next
  case False
  then have t: "2 \<le> turn"
    using assms by simp
  then have "[2..turn] = [2..turn - 1] @ [turn]"
    by (rule upto_rec2)
  then show ?thesis
    using t
    by (simp add: instance_at_turn_def groq_call_def turn_body_def Let_def split: prod.splits)
qed

lemma instance_at_turn_prefix:
  assumes "1 \<le> t" and "t \<le> t'"
  shows "prefix (conversation (instance_at_turn srv self task t))
           (conversation (instance_at_turn srv self task t'))"
proof (cases "t = 1")
  case True
  let ?s1 = "snd (determine_conversation_length srv self task)"
  have start: "instance_at_turn srv self task 1 = ?s1"
    by (simp add: instance_at_turn_def split: prod.splits)
  show ?thesis
  proof (cases "t' = 1")
    case True
    then show ?thesis using \<open>t = 1\<close> by simp
  next
    case False
    then have "2 \<le> t'" using assms True by simp
    then have "conversation (instance_at_turn srv self task t') =
        conversation (fold (turn_body srv (fst (determine_conversation_length srv self task)) task)
          [2..t' - 1] (initial_exchange srv task ?s1))"
      by (simp add: instance_at_turn_def split: prod.splits)
    moreover have "prefix (conversation ?s1) (conversation (initial_exchange srv task ?s1))"
      using initial_exchange_conversation [of srv task ?s1] by auto
    ultimately show ?thesis
      unfolding True start
      using fold_turn_body_prefix prefix_order.trans by metis
  qed
next
  case False
  then have t: "2 \<le> t" using assms by simp
  then have t': "2 \<le> t'" using assms by simp
  show ?thesis
  proof (cases "t = t'")
    case True
    then show ?thesis by simp
  next
    case False
    then have "[2..t' - 1] = [2..t - 1] @ [t..t' - 1]"
      using t assms(2) by (intro upto_split1) simp_all
    then have "instance_at_turn srv self task t' =
        fold (turn_body srv (fst (determine_conversation_length srv self task)) task) [t..t' - 1]
          (instance_at_turn srv self task t)"
      using t t' by (simp add: instance_at_turn_def split: prod.splits)
    then show ?thesis
      by (simp add: fold_turn_body_prefix del: prefix_code)
  qed
qed

lemma instance_at_turn_final:
  "conversation (snd (collaborate srv self task)) =
     conversation (instance_at_turn srv self task
       (fst (determine_conversation_length srv self task) + 1))"
  using determine_conversation_length_range [of srv self task]
  by (simp add: collaborate_conversation conversation_loop_def instance_at_turn_def
        split: prod.splits)

lemma instance_at_turn_length:
  assumes "1 \<le> turn"
  shows "length (conversation (instance_at_turn srv self task turn)) =
           length (conversation self) + 2 * nat (turn - 1)"
proof (cases "turn = 1")
  case True
  then show ?thesis
    using determine_conversation_length_conversation [of srv self task]
    by (auto simp add: instance_at_turn_def split: prod.splits)
next
  case False
  then have "2 \<le> turn" using assms by simp
  then show ?thesis
    using determine_conversation_length_conversation [of srv self task]
      initial_exchange_conversation [of srv task "snd (determine_conversation_length srv self task)"]
    by (auto simp add: instance_at_turn_def fold_turn_body_length split: prod.splits)
qed

lemma prefix_nth: "prefix xs ys \<Longrightarrow> i < length xs \<Longrightarrow> ys ! i = xs ! i"
  by (auto simp add: prefix_def nth_append)

lemma collaborate_groq_entry:
  assumes "1 \<le> turn" and "turn \<le> fst (determine_conversation_length srv self task)"
  shows "conversation (snd (collaborate srv self task))
           ! (length (conversation self) + 2 * nat turn - 1) =
         fst (groq_agent srv (fst (groq_call srv self task turn))
                (snd (groq_call srv self task turn))) \<and>
         length (conversation self) + 2 * nat turn - 1
           < length (conversation (snd (collaborate srv self task)))"
proof -
  let ?N = "fst (determine_conversation_length srv self task)"
  let ?s = "fst (groq_call srv self task turn)"
  let ?p = "snd (groq_call srv self task turn)"
  let ?next = "instance_at_turn srv self task (turn + 1)"
  let ?i = "length (conversation self) + 2 * nat turn - 1"
  have appended: "conversation ?next = conversation ?s @ [fst (groq_agent srv ?s ?p)]"
    by (simp add: instance_at_turn_next [OF assms(1)] groq_turn_conversation)
  have len: "length (conversation ?next) = length (conversation self) + 2 * nat turn"
    using instance_at_turn_length [of "turn + 1" srv self task] assms(1) by simp
  then have idx: "?i < length (conversation ?next)" and at_end: "?i = length (conversation ?s)"
    using assms(1) appended by auto
  have "prefix (conversation ?next) (conversation (instance_at_turn srv self task (?N + 1)))"
    using assms by (intro instance_at_turn_prefix) simp_all
  then have pre: "prefix (conversation ?next) (conversation (snd (collaborate srv self task)))"
    by (simp only: instance_at_turn_final)
  then have "conversation (snd (collaborate srv self task)) ! ?i = conversation ?next ! ?i"
    using idx by (rule prefix_nth)
  also have "\<dots> = fst (groq_agent srv ?s ?p)"
    unfolding appended at_end by simp
  finally have entry: "conversation (snd (collaborate srv self task)) ! ?i =
      fst (groq_agent srv ?s ?p)" .
  have "length (conversation ?next) \<le> length (conversation (snd (collaborate srv self task)))"
    using pre by (rule prefix_length_le)
  then show ?thesis
    using entry idx by simp
qed

lemma groq_result_no_choices:
  assumes "map_of kvs ''choices'' = None \<or> map_of kvs ''choices'' = Some (PList [])"
  shows "groq_result (PDict kvs) =
           Inr (PStr (''Groq Agent Error: Unexpected response format - '' @ py_repr (PDict kvs)))"
proof (cases "map_of kvs ''choices''")
  case None
  then have "''choices'' \<notin> set (map fst kvs)"
    by (simp add: map_of_eq_None_iff)
  then show ?thesis
    by (simp add: groq_result_def py_contains_def py_str_def)
next
  case (Some v)
  then have v: "v = PList []"
    using assms by simp
  have "''choices'' \<in> set (map fst kvs)"
    using Some by (metis map_of_eq_None_iff option.distinct(1) set_map)
  then show ?thesis
    using Some v
    by (simp add: groq_result_def py_contains_def py_str_def py_getitem_str_def py_len_def)
qed

lemma groq_agent_no_choices:
  assumes "post_json srv (world s) (groq_api_url s) (groq_headers s) (groq_payload s prompt)
             = (Inr (PDict kvs), w)"
    and "map_of kvs ''choices'' = None \<or> map_of kvs ''choices'' = Some (PList [])"
  shows "fst (groq_agent srv s prompt) =
           PStr (''Groq Agent Error: Unexpected response format - '' @ py_repr (PDict kvs))"
  using assms(1) groq_result_no_choices [OF assms(2)] by (simp add: groq_agent_def)

text \<open>
  Claim C5. When the decoded body of Client B's response is an object whose \<^verbatim>\<open>choices\<close>
  is missing or is the empty array, \<^verbatim>\<open>groq_agent\<close> returns (it does not raise) the
  string \<^verbatim>\<open>Groq Agent Error: Unexpected response format - \<close> followed by the body as
  \<^verbatim>\<open>str\<close> prints it, and the step that calls Client B appends that very string. Within
  \<^verbatim>\<open>collaborate\<close>: when the call of Client B in a turn from 1 to the turn budget gets
  such a body, the transcript that \<^verbatim>\<open>collaborate\<close> leaves has that string as the second
  entry of the turn.
\<close>

theorem groq_agent_malformed_response:
  assumes "map_of kvs ''choices'' = None \<or> map_of kvs ''choices'' = Some (PList [])"
  shows
    "(post_json srv (world s) (groq_api_url s) (groq_headers s) (groq_payload s prompt)
        = (Inr (PDict kvs), w) \<longrightarrow>
        fst (groq_agent srv s prompt) =
          PStr (''Groq Agent Error: Unexpected response format - '' @ py_repr (PDict kvs)) \<and>
        conversation (groq_turn srv prompt s) =
          conversation s @
            [PStr (''Groq Agent Error: Unexpected response format - '' @ py_repr (PDict kvs))] \<and>
        prefix (conversation (groq_turn srv prompt s))
          (conversation (fold (turn_body srv max_turns task) turns (groq_turn srv prompt s)))) \<and>
     (1 \<le> turn \<and> turn \<le> fst (determine_conversation_length srv self task) \<and>
      post_json srv (world (fst (groq_call srv self task turn)))
        (groq_api_url (fst (groq_call srv self task turn)))
        (groq_headers (fst (groq_call srv self task turn)))
        (groq_payload (fst (groq_call srv self task turn)) (snd (groq_call srv self task turn)))
        = (Inr (PDict kvs), w') \<longrightarrow>
        length (conversation self) + 2 * nat turn - 1
          < length (conversation (snd (collaborate srv self task))) \<and>
        conversation (snd (collaborate srv self task))
          ! (length (conversation self) + 2 * nat turn - 1) =
          PStr (''Groq Agent Error: Unexpected response format - '' @ py_repr (PDict kvs)) \<and>
        PStr (''Groq Agent Error: Unexpected response format - '' @ py_repr (PDict kvs))
          \<in> set (conversation (snd (collaborate srv self task))))"
proof -
  let ?error = "PStr (''Groq Agent Error: Unexpected response format - '' @ py_repr (PDict kvs))"
  have agent: "fst (groq_agent srv s prompt) = ?error \<and>
      conversation (groq_turn srv prompt s) = conversation s @ [?error] \<and>
      prefix (conversation (groq_turn srv prompt s))
        (conversation (fold (turn_body srv max_turns task) turns (groq_turn srv prompt s)))"
    if call: "post_json srv (world s) (groq_api_url s) (groq_headers s) (groq_payload s prompt)
        = (Inr (PDict kvs), w)"
  proof -
    have returned: "fst (groq_agent srv s prompt) = ?error"
      using call assms by (rule groq_agent_no_choices)
    have appended: "conversation (groq_turn srv prompt s) = conversation s @ [?error]"
      by (simp only: groq_turn_conversation returned)
    have kept: "prefix (conversation (groq_turn srv prompt s))
        (conversation (fold (turn_body srv max_turns task) turns (groq_turn srv prompt s)))"
      by (rule fold_turn_body_prefix)
    show ?thesis
      using returned appended kept by blast
  qed
  have run: "length (conversation self) + 2 * nat turn - 1
        < length (conversation (snd (collaborate srv self task))) \<and>
      conversation (snd (collaborate srv self task))
        ! (length (conversation self) + 2 * nat turn - 1) = ?error \<and>
      ?error \<in> set (conversation (snd (collaborate srv self task)))"
    if turn: "1 \<le> turn" "turn \<le> fst (determine_conversation_length srv self task)"
      and call: "post_json srv (world (fst (groq_call srv self task turn)))
        (groq_api_url (fst (groq_call srv self task turn)))
        (groq_headers (fst (groq_call srv self task turn)))
        (groq_payload (fst (groq_call srv self task turn)) (snd (groq_call srv self task turn)))
        = (Inr (PDict kvs), w')"
  proof -
    let ?i = "length (conversation self) + 2 * nat turn - 1"
    have "fst (groq_agent srv (fst (groq_call srv self task turn))
        (snd (groq_call srv self task turn))) = ?error"
      using call assms by (rule groq_agent_no_choices)
    then have entry: "conversation (snd (collaborate srv self task)) ! ?i = ?error"
      and idx: "?i < length (conversation (snd (collaborate srv self task)))"
      using collaborate_groq_entry [OF turn] by simp_all
    then have "?error \<in> set (conversation (snd (collaborate srv self task)))"
      using nth_mem by metis
    then show ?thesis
      using entry idx by blast
  qed
  show ?thesis
    using agent run by blast
qed

theorem groq_agent_malformed_response_witness:
  "map_of [(''choices'', PList [])] ''choices'' = Some (PList []) \<and>
   fst (groq_agent (constant_services (Inr ''3'') (Inr (PDict [(''choices'', PList [])])))
      (init no_environ None None ()) ''Hello'') =
     PStr (''Groq Agent Error: Unexpected response format - {'' @ [CHR 0x27] @ ''choices''
           @ [CHR 0x27] @ '': []}'') \<and>
   conversation (groq_turn (constant_services (Inr ''3'') (Inr (PDict [(''choices'', PList [])])))
      ''Hello'' (init no_environ None None ())) =
     [PStr (''Groq Agent Error: Unexpected response format - {'' @ [CHR 0x27] @ ''choices''
           @ [CHR 0x27] @ '': []}'')] \<and>
   fst (determine_conversation_length
      (constant_services (Inr ''3'') (Inr (PDict [(''choices'', PList [])])))
      (init no_environ None None ()) ''Plan a 3-day trip to Kyoto'') = 3 \<and>
   conversation (snd (collaborate
      (constant_services (Inr ''3'') (Inr (PDict [(''choices'', PList [])])))
      (init no_environ None None ()) ''Plan a 3-day trip to Kyoto'')) ! 3 =
     PStr (''Groq Agent Error: Unexpected response format - {'' @ [CHR 0x27] @ ''choices''
           @ [CHR 0x27] @ '': []}'')"
proof -
  let ?body = "PDict [(''choices'', PList [])]"
  let ?srv = "constant_services (Inr ''3'') (Inr ?body)"
  let ?self = "init no_environ None None ()"
  let ?task = "''Plan a 3-day trip to Kyoto''"
  have call: "post_json ?srv w url hd pl = (Inr ?body, ())" for w url hd pl
    by (simp add: constant_services_post_json)
  have choices: "map_of [(''choices'', PList [])] ''choices'' = None \<or>
      map_of [(''choices'', PList [])] ''choices'' = Some (PList [])"
    by simp
  have repr: "py_repr ?body = ''{'' @ [CHR 0x27] @ ''choices'' @ [CHR 0x27] @ '': []}''"
    by (simp add: repr_str_def repr_char_def py_isprintable_def Let_def)
  have empty: "conversation ?self = []"
    by (simp add: init_def)
  have N: "fst (determine_conversation_length ?srv ?self ?task) = 3"
    by (simp add: determine_conversation_length_fst gemini_agent_fst
          constant_services_generate_content parse_turns_def py_int_def strip_def py_isspace_def
          int_unsigned_def max_str_digits_def is_digit_def digit_val_def)
  show ?thesis
    using groq_agent_malformed_response [OF choices, where srv = ?srv and s = ?self
        and prompt = "''Hello''" and w = "()" and turn = 2 and self = ?self and task = ?task
        and w' = "()"]
      call repr empty N
    by simp
qed

subsection \<open>The transcript across runs\<close>

lemma init_conversation: "conversation (init environ gemini_key groq_key w) = []"
  by (simp add: init_def)

text \<open>
  Claim C9, amended. The transcript is empty at construction and no operation clears it: a
  second \<^verbatim>\<open>collaborate\<close> on the same instance appends to what the first run left. After
  a first run with budget \<open>N1\<close> the transcript has \<open>2 * N1\<close> entries; after a second run
  with budget \<open>N2\<close> it has \<open>2 * N1 + 2 * N2\<close>, which is not \<open>2 * N2\<close>. The authorship by
  parity is kept in every run: a run appends an even number of entries, Client A's and
  Client B's in turn, so whatever holds of every response of Client A (\<open>A\<close>) holds at the
  even indices, and whatever holds of every response of Client B (\<open>B\<close>) at the odd ones.
\<close>

theorem transcript_kept_across_runs:
  assumes "conversation self = []"
    and "\<forall>s p. A (PStr (fst (gemini_agent srv s p)))"
    and "\<forall>s p. B (fst (groq_agent srv s p))"
  shows "conversation (init environ gemini_key groq_key w) = [] \<and>
    (let run1 = snd (collaborate srv self task1);
         run2 = snd (collaborate srv run1 task2);
         N1 = fst (determine_conversation_length srv self task1);
         N2 = fst (determine_conversation_length srv run1 task2)
     in prefix (conversation run1) (conversation run2) \<and>
        int (length (conversation run1)) = 2 * N1 \<and>
        int (length (conversation run2)) = 2 * N1 + 2 * N2 \<and>
        int (length (conversation run2)) \<noteq> 2 * N2 \<and>
        alternates A B (conversation run1) \<and>
        alternates A B (conversation run2))"
proof -
  let ?run1 = "snd (collaborate srv self task1)"
  let ?run2 = "snd (collaborate srv ?run1 task2)"
  let ?N1 = "fst (determine_conversation_length srv self task1)"
  let ?N2 = "fst (determine_conversation_length srv ?run1 task2)"
  have len1: "int (length (conversation ?run1)) = 2 * ?N1"
    using assms(1) by (simp add: collaborate_length)
  have len2: "int (length (conversation ?run2)) = 2 * ?N1 + 2 * ?N2"
    by (simp add: collaborate_length [of srv ?run1 task2] len1)
  have "3 \<le> ?N1"
    using determine_conversation_length_range by blast
  then have differs: "int (length (conversation ?run2)) \<noteq> 2 * ?N2"
    using len2 by simp
  have "even (int (length (conversation ?run1)))"
    using len1 by simp
  then have even1: "even (length (conversation ?run1))"
    by simp
  have alt1: "alternates A B (conversation ?run1)"
    using assms(2,3) by (rule collaborate_alternates) (simp_all add: assms(1))
  have alt2: "alternates A B (conversation ?run2)"
    using assms(2,3) even1 alt1 by (rule collaborate_alternates)
  have "prefix (conversation ?run1) (conversation ?run2)"
    by (rule collaborate_prefix)
  then show ?thesis
    using len1 len2 differs alt1 alt2 by (simp add: init_conversation Let_def del: prefix_code)
qed

lemma constant_gemini_agent:
  "fst (gemini_agent (constant_services (Inr r) q) s p) = r"
  by (simp add: gemini_agent_fst constant_services_generate_content)

lemma constant_groq_agent_completion:
  "fst (groq_agent (constant_services r (Inr (completion c))) s p) = PStr c"
  by (simp add: groq_agent_def constant_services_post_json groq_result_def completion_def
        py_contains_def py_getitem_str_def py_len_def py_getitem_int_def py_index_def)

lemma parse_turns_3: "parse_turns ''3'' = 3"
  by (simp add: parse_turns_def py_int_def strip_def py_isspace_def int_unsigned_def
        max_str_digits_def is_digit_def digit_val_def)

lemma constant_planner_3:
  "fst (determine_conversation_length (constant_services (Inr ''3'') q) s task) = 3"
  by (simp add: determine_conversation_length_fst constant_gemini_agent parse_turns_3)

text \<open>
  Claim C9 says that the labelling by parity holds for the first run only. It holds for the
  second run as well: with a Client A that always answers \<^verbatim>\<open>3\<close> and a Client B that always
  answers \<^verbatim>\<open>ok\<close>, the twelve entries after two runs are Client A's at the even indices and
  Client B's at the odd ones.
\<close>

theorem second_run_labels_hold:
  "alternates ((=) (PStr ''3'')) ((=) (PStr ''ok''))
     (conversation (snd (collaborate (constant_services (Inr ''3'') (Inr (completion ''ok'')))
        (snd (collaborate (constant_services (Inr ''3'') (Inr (completion ''ok'')))
           (init no_environ None None ()) ''first task''))
        ''second task''))) \<and>
   length (conversation (snd (collaborate (constant_services (Inr ''3'') (Inr (completion ''ok'')))
        (snd (collaborate (constant_services (Inr ''3'') (Inr (completion ''ok'')))
           (init no_environ None None ()) ''first task''))
        ''second task''))) = 12"
proof -
  let ?srv = "constant_services (Inr ''3'') (Inr (completion ''ok''))"
  let ?self = "init no_environ None None ()"
  let ?run1 = "snd (collaborate ?srv ?self ''first task'')"
  let ?run2 = "snd (collaborate ?srv ?run1 ''second task'')"
  have A: "\<forall>s p. PStr ''3'' = PStr (fst (gemini_agent ?srv s p))"
    by (simp add: constant_gemini_agent)
  have B: "\<forall>s p. PStr ''ok'' = fst (groq_agent ?srv s p)"
    by (simp add: constant_groq_agent_completion)
  have len1: "int (length (conversation ?run1)) = 6"
    by (simp add: collaborate_length constant_planner_3 init_conversation)
  then have len1': "length (conversation ?run1) = 6"
    by simp
  have "int (length (conversation ?run2)) = 12"
    by (simp add: collaborate_length [of ?srv ?run1] constant_planner_3 len1')
  then have len2: "length (conversation ?run2) = 12"
    by simp
  have alt1: "alternates ((=) (PStr ''3'')) ((=) (PStr ''ok'')) (conversation ?run1)"
    using A B by (rule collaborate_alternates) (simp_all add: init_conversation)
  have "alternates ((=) (PStr ''3'')) ((=) (PStr ''ok'')) (conversation ?run2)"
    using A B by (rule collaborate_alternates) (simp_all add: len1' alt1)
  then show ?thesis
    using len2 by blast
qed

theorem transcript_kept_across_runs_witness:
  "conversation (init no_environ None None ()) = [] \<and>
   length (conversation (snd (collaborate (constant_services (Inr ''3'') (Inr (completion ''ok'')))
        (init no_environ None None ()) ''first task''))) = 6 \<and>
   length (conversation (snd (collaborate (constant_services (Inr ''3'') (Inr (completion ''ok'')))
        (snd (collaborate (constant_services (Inr ''3'') (Inr (completion ''ok'')))
           (init no_environ None None ()) ''first task''))
        ''second task''))) = 12 \<and>
   fst (determine_conversation_length (constant_services (Inr ''3'') (Inr (completion ''ok'')))
        (snd (collaborate (constant_services (Inr ''3'') (Inr (completion ''ok'')))
           (init no_environ None None ()) ''first task''))
        ''second task'') = 3"
proof -
  let ?srv = "constant_services (Inr ''3'') (Inr (completion ''ok''))"
  let ?self = "init no_environ None None ()"
  have empty: "conversation ?self = []"
    by (rule init_conversation)
  have A: "\<forall>s p. PStr ''3'' = PStr (fst (gemini_agent ?srv s p))"
    by (simp add: constant_gemini_agent)
  have B: "\<forall>s p. PStr ''ok'' = fst (groq_agent ?srv s p)"
    by (simp add: constant_groq_agent_completion)
  show ?thesis
    using transcript_kept_across_runs [OF empty A B, of no_environ None None "()"
        "''first task''" "''second task''"]
    by (simp add: Let_def constant_planner_3 del: prefix_code)
qed

subsection \<open>Occurrences of a text in a prompt\<close>

lemma sublist_later: "sublist xs ys \<Longrightarrow> sublist xs (ps @ ys)"
  by (metis sublist_appendI sublist_order.order_trans sublist_append_leftI)

lemma suffix_later: "suffix xs ys \<Longrightarrow> suffix xs (ps @ ys)"
  by (simp add: suffix_appendI)

lemma follow_up_gemini_final:
  "sublist conclusion_text_gemini (fst (generate_follow_up_prompts self h m m task))"
  unfolding generate_follow_up_prompts_def Let_def fst_conv conclusion_text_gemini_def
  by (simp only: if_True simp_thms) (rule sublist_append_rightI | rule sublist_later)+

lemma follow_up_groq_final:
  "sublist conclusion_text_groq (snd (generate_follow_up_prompts self h m m task))"
  unfolding generate_follow_up_prompts_def Let_def snd_conv conclusion_text_groq_def
  by (simp only: if_True simp_thms) (rule sublist_append_rightI | rule sublist_later)+

lemma follow_up_gemini_continue:
  "t \<noteq> m \<Longrightarrow> sublist continuation_text (fst (generate_follow_up_prompts self h t m task))"
  unfolding generate_follow_up_prompts_def Let_def fst_conv continuation_text_def
  by (simp only: if_False) (rule sublist_append_rightI | rule sublist_later)+

lemma follow_up_groq_continue:
  "t \<noteq> m \<Longrightarrow> sublist continuation_text (snd (generate_follow_up_prompts self h t m task))"
  unfolding generate_follow_up_prompts_def Let_def snd_conv continuation_text_def
  by (simp only: if_False) (rule sublist_append_rightI | rule sublist_later)+

lemma follow_up_gemini_suffix:
  "suffix ((if t = m then conclusion_text_gemini else continuation_text) @ closing_text)
     (fst (generate_follow_up_prompts self h t m task))"
  unfolding generate_follow_up_prompts_def Let_def fst_conv continuation_text_def
    conclusion_text_gemini_def closing_text_def
  by (rule suffix_order.refl | rule suffix_later)+

lemma follow_up_groq_suffix:
  "suffix ((if t = m then conclusion_text_groq else continuation_text) @ closing_text)
     (snd (generate_follow_up_prompts self h t m task))"
  unfolding generate_follow_up_prompts_def Let_def snd_conv continuation_text_def
    conclusion_text_groq_def closing_text_def
  by (rule suffix_order.refl | rule suffix_later)+

subsection \<open>The follow-up prompts\<close>

lemma instruction_suffix_iff:
  assumes shape: "suffix ((if c then X else Y) @ closing) P"
    and differ: "\<not> suffix Y X" and shorter: "length Y \<le> length X"
  shows "(suffix (X @ closing) P \<longleftrightarrow> c) \<and> (suffix (Y @ closing) P \<longleftrightarrow> \<not> c)"
proof -
  have both: "\<not> (suffix (X @ closing) P \<and> suffix (Y @ closing) P)"
  proof
    assume "suffix (X @ closing) P \<and> suffix (Y @ closing) P"
    moreover have "length (Y @ closing) \<le> length (X @ closing)"
      using shorter by simp
    ultimately have "suffix (Y @ closing) (X @ closing)"
      using suffix_length_suffix by blast
    then show False
      using differ by simp
  qed
  show ?thesis
  proof (cases c)
    case True
    then have "suffix (X @ closing) P"
      using shape by simp
    then show ?thesis
      using True both by blast
  next
    case False
    then have "suffix (Y @ closing) P"
      using shape by simp
    then show ?thesis
      using False both by blast
  qed
qed

lemma continuation_not_suffix_of_conclusion:
  "\<not> suffix continuation_text conclusion_text_gemini"
  "\<not> suffix continuation_text conclusion_text_groq"
  "length continuation_text \<le> length conclusion_text_gemini"
  "length continuation_text \<le> length conclusion_text_groq"
  by (simp_all add: continuation_text_def conclusion_text_gemini_def conclusion_text_groq_def
        suffix_to_prefix)

text \<open>
  Claim C6, amended. For every task, transcript, \<open>max_turns\<close> and turn index, both
  follow-up prompts contain the conclusion instruction when the turn index equals
  \<open>max_turns\<close>, and the continuation instruction at every other turn index (so at every
  index below \<open>max_turns\<close>). The instruction stands right before the closing lines: a
  prompt ends with its conclusion instruction and the closing lines exactly when the turn
  index equals \<open>max_turns\<close>, and with the continuation instruction and the closing lines
  exactly when it does not. Task and transcript are embedded as they are, so a match of
  the conclusion instruction anywhere in the prompt can also succeed before the final turn.
\<close>

theorem follow_up_prompts_instruction:
  "(turn_number = max_turns \<longrightarrow>
      sublist conclusion_text_gemini
        (fst (generate_follow_up_prompts self conversation_history turn_number max_turns task)) \<and>
      sublist conclusion_text_groq
        (snd (generate_follow_up_prompts self conversation_history turn_number max_turns task))) \<and>
   (turn_number \<noteq> max_turns \<longrightarrow>
      sublist continuation_text
        (fst (generate_follow_up_prompts self conversation_history turn_number max_turns task)) \<and>
      sublist continuation_text
        (snd (generate_follow_up_prompts self conversation_history turn_number max_turns task))) \<and>
   (suffix (conclusion_text_gemini @ closing_text)
      (fst (generate_follow_up_prompts self conversation_history turn_number max_turns task))
      \<longleftrightarrow> turn_number = max_turns) \<and>
   (suffix (conclusion_text_groq @ closing_text)
      (snd (generate_follow_up_prompts self conversation_history turn_number max_turns task))
      \<longleftrightarrow> turn_number = max_turns) \<and>
   (suffix (continuation_text @ closing_text)
      (fst (generate_follow_up_prompts self conversation_history turn_number max_turns task))
      \<longleftrightarrow> turn_number \<noteq> max_turns) \<and>
   (suffix (continuation_text @ closing_text)
      (snd (generate_follow_up_prompts self conversation_history turn_number max_turns task))
      \<longleftrightarrow> turn_number \<noteq> max_turns)"
proof -
  let ?P = "generate_follow_up_prompts self conversation_history turn_number max_turns task"
  have final: "turn_number = max_turns \<longrightarrow>
      sublist conclusion_text_gemini (fst ?P) \<and> sublist conclusion_text_groq (snd ?P)"
    using follow_up_gemini_final follow_up_groq_final by blast
  have continue: "turn_number \<noteq> max_turns \<longrightarrow>
      sublist continuation_text (fst ?P) \<and> sublist continuation_text (snd ?P)"
    using follow_up_gemini_continue follow_up_groq_continue by blast
  have gemini: "(suffix (conclusion_text_gemini @ closing_text) (fst ?P)
        \<longleftrightarrow> turn_number = max_turns) \<and>
      (suffix (continuation_text @ closing_text) (fst ?P) \<longleftrightarrow> turn_number \<noteq> max_turns)"
    by (rule instruction_suffix_iff [OF follow_up_gemini_suffix])
      (rule continuation_not_suffix_of_conclusion)+
  have groq: "(suffix (conclusion_text_groq @ closing_text) (snd ?P)
        \<longleftrightarrow> turn_number = max_turns) \<and>
      (suffix (continuation_text @ closing_text) (snd ?P) \<longleftrightarrow> turn_number \<noteq> max_turns)"
    by (rule instruction_suffix_iff [OF follow_up_groq_suffix])
      (rule continuation_not_suffix_of_conclusion)+
  show ?thesis
    using final continue gemini groq by blast
qed

theorem follow_up_prompts_instruction_witness:
  "sublist conclusion_text_gemini
     (fst (generate_follow_up_prompts (init no_environ None None ()) [PStr ''a'', PStr ''b''] 3 3
        ''Plan a 3-day trip to Kyoto'')) \<and>
   sublist conclusion_text_groq
     (snd (generate_follow_up_prompts (init no_environ None None ()) [PStr ''a'', PStr ''b''] 3 3
        ''Plan a 3-day trip to Kyoto'')) \<and>
   sublist continuation_text
     (fst (generate_follow_up_prompts (init no_environ None None ()) [PStr ''a'', PStr ''b''] 2 3
        ''Plan a 3-day trip to Kyoto'')) \<and>
   sublist continuation_text
     (snd (generate_follow_up_prompts (init no_environ None None ()) [PStr ''a'', PStr ''b''] 2 3
        ''Plan a 3-day trip to Kyoto''))"
  using follow_up_prompts_instruction [of 3 3 "init no_environ None None ()"
      "[PStr ''a'', PStr ''b'']" "''Plan a 3-day trip to Kyoto''"]
    follow_up_prompts_instruction [of 2 3 "init no_environ None None ()"
      "[PStr ''a'', PStr ''b'']" "''Plan a 3-day trip to Kyoto''"]
  by simp

lemma history_of_two:
  "follow_up_history_text [PStr a, PStr b] =
     ''Agent 1 (Gemini): '' @ a @ ''\<newline>\<newline>'' @ ''Agent 2 (Deepseek): '' @ b"
  by (simp add: follow_up_history_text_def enumerate_eq_zip py_str_def upt_rec)

text \<open>
  Claim C6 says that the prompts contain the conclusion instruction exactly when the turn
  index equals \<open>max_turns\<close>. At turn 2 of 3, with a transcript whose two entries quote the
  conclusion instructions, both prompts contain them.
\<close>

theorem conclusion_text_before_final_turn:
  "sublist conclusion_text_gemini
     (fst (generate_follow_up_prompts (init no_environ None None ())
        [PStr conclusion_text_gemini, PStr conclusion_text_groq] 2 3
        ''Plan a 3-day trip to Kyoto'')) \<and>
   sublist conclusion_text_groq
     (snd (generate_follow_up_prompts (init no_environ None None ())
        [PStr conclusion_text_gemini, PStr conclusion_text_groq] 2 3
        ''Plan a 3-day trip to Kyoto'')) \<and>
   (2::int) \<noteq> 3"
proof -
  have "sublist conclusion_text_gemini
     (fst (generate_follow_up_prompts (init no_environ None None ())
        [PStr conclusion_text_gemini, PStr conclusion_text_groq] 2 3
        ''Plan a 3-day trip to Kyoto''))"
    unfolding generate_follow_up_prompts_def Let_def fst_conv history_of_two append_assoc
    by (rule sublist_append_rightI | rule sublist_later)+
  moreover have "sublist conclusion_text_groq
     (snd (generate_follow_up_prompts (init no_environ None None ())
        [PStr conclusion_text_gemini, PStr conclusion_text_groq] 2 3
        ''Plan a 3-day trip to Kyoto''))"
    unfolding generate_follow_up_prompts_def Let_def snd_conv history_of_two append_assoc
    by (rule sublist_append_rightI | rule sublist_later)+
  ultimately show ?thesis
    by simp
qed

subsection \<open>The initial prompts\<close>

lemma sublist_first: "sublist xs ys \<Longrightarrow> sublist xs (ys @ zs)"
  by (metis sublist_append_rightI sublist_order.order_trans)

lemma introduction_in_line:
  "sublist introduction_text
     ''        Begin by introducing yourself to Agent 2 and outline your initial thoughts on how to approach this task.\<newline>''"
  by code_simp

lemma wait_in_line:
  \<open>sublist wait_text
     ''        Wait for Agent 1's initial thoughts, then respond with your specialized perspective.\<newline>''\<close>
  by code_simp

lemma initial_gemini_introduction:
  "sublist introduction_text (fst (generate_initial_prompts self task))"
  unfolding generate_initial_prompts_def Let_def fst_conv
  by (rule sublist_first [OF introduction_in_line] | rule sublist_later)+

lemma initial_groq_wait:
  "sublist wait_text (snd (generate_initial_prompts self task))"
  unfolding generate_initial_prompts_def Let_def snd_conv
  by (rule sublist_first [OF wait_in_line] | rule sublist_later)+

lemma initial_prompts_task:
  "sublist task (fst (generate_initial_prompts self task))"
  "sublist task (snd (generate_initial_prompts self task))"
  unfolding generate_initial_prompts_def Let_def fst_conv snd_conv
  by (rule sublist_append_rightI | rule sublist_later)+

text \<open>
  Claim C7, amended. The two prompts of turn 1 are functions of the task alone: they are
  the same whatever the instance, and so whatever its transcript, of which they embed
  nothing. Both quote the task. The prompt of Agent 1 tells it to introduce itself to
  Agent 2 and to outline its initial thoughts on the approach; the prompt of Agent 2 asks
  for no introduction: it tells the agent to wait for Agent 1's initial thoughts and then
  to respond with its own perspective.
\<close>

theorem initial_prompts_depend_on_task_only:
  "generate_initial_prompts self task = generate_initial_prompts self' task \<and>
   sublist task (fst (generate_initial_prompts self task)) \<and>
   sublist task (snd (generate_initial_prompts self task)) \<and>
   sublist introduction_text (fst (generate_initial_prompts self task)) \<and>
   sublist wait_text (snd (generate_initial_prompts self task))"
proof -
  have "generate_initial_prompts self task = generate_initial_prompts self' task"
    by (simp only: generate_initial_prompts_def)
  then show ?thesis
    using initial_prompts_task initial_gemini_introduction initial_groq_wait by blast
qed

text \<open>
  Claim C7 says that each of the two prompts tells its agent to introduce itself. The
  prompt of Agent 2 has no form of the word in it.
\<close>

theorem groq_initial_prompt_no_introduction:
  "\<not> sublist ''ntroduc''
     (snd (generate_initial_prompts (init no_environ None None ()) ''Plan a 3-day trip to Kyoto''))"
  by code_simp

subsection \<open>The rendering of the transcript\<close>

lemma labelled_enumerate:
  "map (\<lambda>(i, msg). (if i mod 2 = 0 then ''Agent 1 (Gemini)'' else ''Agent 2 (Deepseek)'')
          @ '': '' @ py_str msg) (enumerate n transcript) = label_entries n transcript"
  by (induction transcript arbitrary: n) (simp_all add: even_iff_mod_2_eq_zero)

lemma follow_up_history_text_render: "follow_up_history_text transcript = render_history transcript"
  unfolding follow_up_history_text_def render_history_def labelled_enumerate ..

lemma summary_history_text_render: "summary_history_text transcript = render_history transcript"
  unfolding summary_history_text_def render_history_def labelled_enumerate ..

lemma follow_up_embeds_history:
  "sublist (follow_up_history_text h) (fst (generate_follow_up_prompts self h t m task))"
  "sublist (follow_up_history_text h) (snd (generate_follow_up_prompts self h t m task))"
  unfolding generate_follow_up_prompts_def Let_def fst_conv snd_conv
  by (rule sublist_append_rightI | rule sublist_later)+

lemma summary_embeds_history:
  "sublist (summary_history_text transcript) (summary_prompt task transcript)"
  unfolding summary_prompt_def
  by (rule sublist_append_rightI | rule sublist_later)+

text \<open>
  Claim C10. \<^verbatim>\<open>generate_follow_up_prompts\<close> and \<^verbatim>\<open>generate_summary\<close> render the transcript
  alike: on every transcript their history texts are equal, and equal to the rendering
  that labels the entry at an even index as Agent 1 (Gemini) and the entry at an odd index
  as Agent 2 (Deepseek) and joins the labelled entries in order with a blank line. That
  text is embedded in both follow-up prompts and in the prompt that \<^verbatim>\<open>generate_summary\<close>
  sends to Client A.
\<close>

theorem history_rendering_shared:
  "follow_up_history_text transcript = summary_history_text transcript \<and>
   follow_up_history_text transcript = render_history transcript \<and>
   summary_history_text transcript = render_history transcript \<and>
   sublist (render_history transcript)
     (fst (generate_follow_up_prompts self transcript turn_number max_turns task)) \<and>
   sublist (render_history transcript)
     (snd (generate_follow_up_prompts self transcript turn_number max_turns task)) \<and>
   sublist (render_history transcript) (summary_prompt task transcript) \<and>
   generate_summary srv self' task transcript =
     gemini_agent srv self' (summary_prompt task transcript)"
  using follow_up_embeds_history [of transcript self turn_number max_turns task]
    summary_embeds_history [of transcript task]
  by (simp add: follow_up_history_text_render summary_history_text_render generate_summary_def)

lemma render_history_example:
  "render_history [PStr ''hello'', PStr ''hi'', PStr ''x''] =
     ''Agent 1 (Gemini): hello\<newline>\<newline>Agent 2 (Deepseek): hi\<newline>\<newline>Agent 1 (Gemini): x''"
  by (simp add: render_history_def py_str_def)

(*PERSISTER_PROOFS*)

end
